theory Spec2Isabelle
  imports Main
begin

unbundle bit_operations_syntax

section \<open>Exceptions, operating system and effects\<close>

text \<open>
  \<^verbatim>\<open>meson.py\<close> is a Python script. Every failure it can produce is an exception, so a
  computation returns \<open>Inl\<close> of an exception or \<open>Inr\<close> of its value. The script raises
  \<open>RuntimeError\<close> with a message at each of its own checks; \<open>os.stat\<close> and
  \<open>os.path.samefile\<close> raise \<open>OSError\<close>; indexing an empty string raises \<open>IndexError\<close>;
  \<open>sys.exit\<close> raises \<open>SystemExit\<close>. \<open>Exception\<close> stands for whatever else a collaborator
  module may raise.
\<close>

datatype errno = ENOENT | ENOTDIR | EACCES | ELOOP | ENAMETOOLONG | EISDIR

datatype exn =
    RuntimeError string
  | OSError errno string
  | IndexError
  | SystemExit int
  | Exception string

text \<open>The result of \<open>os.stat\<close>: the three attributes the script and \<open>samestat\<close> read.\<close>

record stat_result =
  st_mode :: int
  st_ino :: int
  st_dev :: int

text \<open>
  The operating system as the script sees it while it validates its directories: the
  current directory, \<open>os.stat\<close> (which follows symbolic links) and \<open>open(fname, 'r')\<close>.
  The script only reads the file system, so these are fixed functions of the path. The
  process is taken to have a current directory: \<open>os.getcwd\<close> returns. Nothing relates
  \<open>os_stat\<close> of a path as given to \<open>os_stat\<close> of its canonical form: with symbolic links
  and \<open>..\<close> the two can be different entries.
\<close>

record os =
  os_getcwd :: string
  os_stat :: "string \<Rightarrow> errno + stat_result"
  os_open :: "string \<Rightarrow> errno + unit"

text \<open>
  The calls into the collaborator modules \<open>environment\<close>, \<open>build\<close>, \<open>interpreter\<close> and
  \<open>generators\<close>, in the order \<open>BuilderApp.generate\<close> makes them.
\<close>

datatype stage =
    Environment_new
  | Build_new
  | Interpreter_new
  | Interpreter_run
  | ShellGenerator_new
  | NinjaGenerator_new
  | Generator_generate

text \<open>
  The ways \<open>optparse\<close> ends a parse early: help and version print and exit with status 0,
  an error prints the usage and a message and exits with status 2. The error carries the
  option string (and the refused value) of its message.
\<close>

datatype parse_error =
    NoSuchOption string
  | AmbiguousOption string
  | RequiresArgument string
  | TakesNoValue string
  | InvalidChoice string string

datatype parse_stop = Stop_help | Stop_version | Stop_error parse_error

text \<open>
  What the program does besides computing: each access to the file system, each line
  printed, each collaborator call with whether it returned (\<open>True\<close>) or raised.
\<close>

datatype event =
    Getcwd
  | Stat string
  | Open string
  | Close
  | Print string
  | PrintHelp
  | PrintError parse_error
  | Called stage bool

text \<open>
  The values of the command line options (\<open>optparse.Values\<close>), one attribute for each
  \<open>dest\<close> of the \<open>parser.add_option\<close> calls.
\<close>

record Values =
  prefix :: string
  libdir :: string
  bindir :: string
  includedir :: string
  datadir :: string
  mandir :: string
  generator :: string
  buildtype :: string
  strip :: bool
  coverage :: bool

text \<open>
  The modules imported by \<^verbatim>\<open>meson.py\<close> that are not part of it are parameters: the constant
  \<open>environment.builder_filename\<close> and the constructors and methods \<open>generate\<close> calls.
  Objects are handles of type \<open>'h\<close>; a call may change the state \<open>'w\<close> behind the handles
  (the build graph, the files a generator writes) and returns or raises.
\<close>

record ('w, 'h) modules =
  builder_filename :: string
  Environment :: "string \<Rightarrow> string \<Rightarrow> string \<Rightarrow> Values \<Rightarrow> 'w \<Rightarrow> (exn + 'h) \<times> 'w"
  Build :: "'h \<Rightarrow> 'w \<Rightarrow> (exn + 'h) \<times> 'w"
  Interpreter :: "'h \<Rightarrow> 'w \<Rightarrow> (exn + 'h) \<times> 'w"
  Interpreter_run_method :: "'h \<Rightarrow> 'w \<Rightarrow> (exn + unit) \<times> 'w"
  ShellGenerator :: "'h \<Rightarrow> 'h \<Rightarrow> 'w \<Rightarrow> (exn + 'h) \<times> 'w"
  NinjaGenerator :: "'h \<Rightarrow> 'h \<Rightarrow> 'w \<Rightarrow> (exn + 'h) \<times> 'w"
  Generator_generate_method :: "'h \<Rightarrow> 'w \<Rightarrow> (exn + unit) \<times> 'w"

text \<open>
  A computation takes the trace so far and the collaborators' state, and returns its
  result with both updated. \<open>bind\<close> is Python's sequencing: an exception ends the rest.
\<close>

type_synonym ('w, 'a) prog = "event list \<times> 'w \<Rightarrow> (exn + 'a) \<times> event list \<times> 'w"

definition return :: "'a \<Rightarrow> ('w, 'a) prog" where
  "return x = (\<lambda>s. (Inr x, s))"

definition raise :: "exn \<Rightarrow> ('w, 'a) prog" where
  "raise e = (\<lambda>s. (Inl e, s))"

definition bind :: "('w, 'a) prog \<Rightarrow> ('a \<Rightarrow> ('w, 'b) prog) \<Rightarrow> ('w, 'b) prog" where
  "bind m f = (\<lambda>s. case m s of (Inl e, s') \<Rightarrow> (Inl e, s') | (Inr x, s') \<Rightarrow> f x s')"

definition emit :: "event \<Rightarrow> ('w, unit) prog" where
  "emit ev = (\<lambda>(tr, w). (Inr (), (tr @ [ev], w)))"

definition call :: "stage \<Rightarrow> ('w \<Rightarrow> (exn + 'a) \<times> 'w) \<Rightarrow> ('w, 'a) prog" where
  "call st f = (\<lambda>(tr, w). case f w of (r, w') \<Rightarrow> (r, (tr @ [Called st (\<not> isl r)], w')))"

definition getcwd :: "os \<Rightarrow> ('w, string) prog" where
  "getcwd os = bind (emit Getcwd) (\<lambda>_. return (os_getcwd os))"

definition stat :: "os \<Rightarrow> string \<Rightarrow> ('w, stat_result) prog" where
  "stat os path = bind (emit (Stat path)) (\<lambda>_.
     case os_stat os path of
       Inl en \<Rightarrow> raise (OSError en path)
     | Inr st \<Rightarrow> return st)"

section \<open>The library functions the script calls\<close>

text \<open>
  \<open>stat.S_IFMT\<close>, \<open>stat.S_IFDIR\<close> and \<open>stat.S_ISDIR\<close>; the octal masks \<open>0o170000\<close> and
  \<open>0o040000\<close> are written in hexadecimal.
\<close>

definition S_IFMT :: "int \<Rightarrow> int" where
  "S_IFMT mode = mode AND 0xF000"

definition S_IFDIR :: int where
  "S_IFDIR = 0x4000"

definition S_ISDIR :: "int \<Rightarrow> bool" where
  "S_ISDIR mode = (S_IFMT mode = S_IFDIR)"

text \<open>\<open>str.startswith\<close>, \<open>str.split\<close> and \<open>str.join\<close> for the separator \<open>/\<close>.\<close>

definition startswith :: "string \<Rightarrow> string \<Rightarrow> bool" where
  "startswith s p = (take (length p) s = p)"

fun split_on :: "char \<Rightarrow> string \<Rightarrow> string list" where
  "split_on c [] = [[]]"
| "split_on c (x # xs) =
     (if x = c then [] # split_on c xs
      else (case split_on c xs of
              [] \<Rightarrow> [[x]]
            | w # ws \<Rightarrow> (x # w) # ws))"

fun join_with :: "string \<Rightarrow> string list \<Rightarrow> string" where
  "join_with sep [] = []"
| "join_with sep [w] = w"
| "join_with sep (w # ws) = w @ sep @ join_with sep ws"

text \<open>\<open>posixpath.isabs\<close>, \<open>posixpath.join\<close> of two components, \<open>posixpath.normpath\<close>.\<close>

definition isabs :: "string \<Rightarrow> bool" where
  "isabs s = startswith s ''/''"

definition join :: "string \<Rightarrow> string \<Rightarrow> string" where
  "join a b =
     (if startswith b ''/'' then b
      else if a = [] \<or> last a = CHR ''/'' then a @ b
      else a @ ''/'' @ b)"

fun normpath_comps :: "nat \<Rightarrow> string list \<Rightarrow> string list \<Rightarrow> string list" where
  "normpath_comps initial_slashes new_comps [] = new_comps"
| "normpath_comps initial_slashes new_comps (part # parts) =
     (if part = [] \<or> part = ''.'' then normpath_comps initial_slashes new_comps parts
      else if part \<noteq> ''..'' \<or> (initial_slashes = 0 \<and> new_comps = [])
              \<or> (new_comps \<noteq> [] \<and> last new_comps = ''..'')
      then normpath_comps initial_slashes (new_comps @ [part]) parts
      else if new_comps \<noteq> [] then normpath_comps initial_slashes (butlast new_comps) parts
      else normpath_comps initial_slashes new_comps parts)"

definition normpath :: "string \<Rightarrow> string" where
  "normpath path =
     (if path = [] then ''.''
      else
        let initial_slashes =
              (if startswith path ''/''
               then (if startswith path ''//'' \<and> \<not> startswith path ''///'' then 2 else 1)
               else 0);
            comps = normpath_comps initial_slashes [] (split_on CHR ''/'' path);
            p = join_with ''/'' comps;
            p' = (if initial_slashes \<noteq> 0 then replicate initial_slashes CHR ''/'' @ p else p)
        in if p' = [] then ''.'' else p')"

text \<open>\<open>posixpath.abspath\<close>: the current directory is read only for a relative path.\<close>

definition abspath :: "os \<Rightarrow> string \<Rightarrow> ('w, string) prog" where
  "abspath os path =
     (if \<not> isabs path
      then bind (getcwd os) (\<lambda>cwd. return (normpath (join cwd path)))
      else return (normpath path))"

text \<open>\<open>os.path.samestat\<close> and \<open>os.path.samefile\<close>.\<close>

definition samestat :: "stat_result \<Rightarrow> stat_result \<Rightarrow> bool" where
  "samestat s1 s2 = (st_ino s1 = st_ino s2 \<and> st_dev s1 = st_dev s2)"

definition samefile :: "os \<Rightarrow> string \<Rightarrow> string \<Rightarrow> ('w, bool) prog" where
  "samefile os f1 f2 =
     bind (stat os f1) (\<lambda>s1.
     bind (stat os f2) (\<lambda>s2.
     return (samestat s1 s2)))"

section \<open>The option parser\<close>

text \<open>Lines 23 and 29 of the script.\<close>

definition version :: string where
  "version = ''0.1-research''"

definition build_types :: "string list" where
  "build_types = [''plain'', ''debug'', ''optimized'']"

text \<open>
  An option of the parser: its option strings and its action. A \<open>store\<close> action carries
  the assignment to its \<open>dest\<close>; \<open>Store_choice\<close> is \<open>type='choice'\<close> with its choices;
  \<open>OptionParser\<close> itself adds \<open>--version\<close> (a version is given) and \<open>-h\<close>, \<open>--help\<close>.
\<close>

datatype action =
    Store "string \<Rightarrow> Values \<Rightarrow> Values"
  | Store_choice "string list" "string \<Rightarrow> Values \<Rightarrow> Values"
  | Store_true "Values \<Rightarrow> Values"
  | Help
  | Version

datatype opt = Opt (short_opts: "string list") (long_opts: "string list") (action: action)

definition parser_options :: "opt list" where
  "parser_options =
    [Opt [] [''--version''] Version,
     Opt [''-h''] [''--help''] Help,
     Opt [] [''--prefix''] (Store (\<lambda>v values. values\<lparr>prefix := v\<rparr>)),
     Opt [] [''--libdir''] (Store (\<lambda>v values. values\<lparr>libdir := v\<rparr>)),
     Opt [] [''--bindir''] (Store (\<lambda>v values. values\<lparr>bindir := v\<rparr>)),
     Opt [] [''--includedir''] (Store (\<lambda>v values. values\<lparr>includedir := v\<rparr>)),
     Opt [] [''--datadir''] (Store (\<lambda>v values. values\<lparr>datadir := v\<rparr>)),
     Opt [] [''--mandir''] (Store (\<lambda>v values. values\<lparr>mandir := v\<rparr>)),
     Opt [''-G''] [''--generator''] (Store (\<lambda>v values. values\<lparr>generator := v\<rparr>)),
     Opt [] [''--buildtype''] (Store_choice build_types (\<lambda>v values. values\<lparr>buildtype := v\<rparr>)),
     Opt [] [''--strip''] (Store_true (\<lambda>values. values\<lparr>strip := True\<rparr>)),
     Opt [] [''--enable-gcov''] (Store_true (\<lambda>values. values\<lparr>coverage := True\<rparr>))]"

text \<open>The \<open>default=\<close> arguments of lines 33 to 52, by \<open>dest\<close>.\<close>

definition get_default_values :: Values where
  "get_default_values =
    \<lparr>prefix = ''/usr/local'', libdir = ''lib'', bindir = ''bin'', includedir = ''include'',
     datadir = ''share'', mandir = ''share/man'', generator = ''ninja'', buildtype = ''debug'',
     strip = False, coverage = False\<rparr>"

text \<open>
  \<open>Option.takes_value\<close> and \<open>Option.process\<close> (\<open>check_choice\<close>, then \<open>take_action\<close>). A
  \<open>store\<close> option always takes a value, so the last equation is never reached.
\<close>

fun takes_value :: "action \<Rightarrow> bool" where
  "takes_value (Store _) = True"
| "takes_value (Store_choice _ _) = True"
| "takes_value _ = False"

fun process :: "string \<Rightarrow> action \<Rightarrow> string option \<Rightarrow> Values \<Rightarrow> parse_stop + Values" where
  "process opt (Store f) (Some v) values = Inr (f v values)"
| "process opt (Store_choice choices f) (Some v) values =
     (if v \<in> set choices then Inr (f v values) else Inl (Stop_error (InvalidChoice opt v)))"
| "process opt (Store_true f) _ values = Inr (f values)"
| "process opt Help _ values = Inl Stop_help"
| "process opt Version _ values = Inl Stop_version"
| "process opt _ None values = Inr values"

text \<open>\<open>_match_abbrev\<close>: the option string itself, or the only one it is a prefix of.\<close>

definition match_abbrev :: "string \<Rightarrow> string list \<Rightarrow> parse_stop + string" where
  "match_abbrev s wordmap =
     (if s \<in> set wordmap then Inr s
      else (case filter (\<lambda>word. startswith word s) wordmap of
              [] \<Rightarrow> Inl (Stop_error (NoSuchOption s))
            | [word] \<Rightarrow> Inr word
            | _ \<Rightarrow> Inl (Stop_error (AmbiguousOption s))))"

text \<open>
  \<open>_process_long_opt\<close> on the argument popped from \<open>rargs\<close>: a value after \<open>=\<close> is put
  back in front of the remaining arguments and popped again by an option that takes one.
\<close>

definition process_long_opt ::
  "string \<Rightarrow> string list \<Rightarrow> Values \<Rightarrow> parse_stop + (string list \<times> Values)" where
  "process_long_opt arg rargs0 values =
     (let had_explicit_value = (CHR ''='' \<in> set arg);
          opt0 = takeWhile (\<lambda>c. c \<noteq> CHR ''='') arg;
          rargs = (if had_explicit_value
                   then tl (dropWhile (\<lambda>c. c \<noteq> CHR ''='') arg) # rargs0 else rargs0)
      in case match_abbrev opt0 (concat (map long_opts parser_options)) of
           Inl stop \<Rightarrow> Inl stop
         | Inr opt \<Rightarrow>
            (case find (\<lambda>option. opt \<in> set (long_opts option)) parser_options of
               None \<Rightarrow> Inl (Stop_error (NoSuchOption opt))
             | Some option \<Rightarrow>
                if takes_value (action option) then
                  (case rargs of
                     [] \<Rightarrow> Inl (Stop_error (RequiresArgument opt))
                   | v # rargs' \<Rightarrow>
                       (case process opt (action option) (Some v) values of
                          Inl stop \<Rightarrow> Inl stop
                        | Inr values' \<Rightarrow> Inr (rargs', values')))
                else if had_explicit_value then Inl (Stop_error (TakesNoValue opt))
                else (case process opt (action option) None values of
                        Inl stop \<Rightarrow> Inl stop
                      | Inr values' \<Rightarrow> Inr (rargs, values'))))"

text \<open>
  \<open>_process_short_opts\<close> on the characters after the dash: an option that takes a value
  takes the rest of the cluster, or the next argument when the cluster is used up.
\<close>

fun process_short_opts ::
  "string \<Rightarrow> string list \<Rightarrow> Values \<Rightarrow> parse_stop + (string list \<times> Values)" where
  "process_short_opts [] rargs values = Inr (rargs, values)"
| "process_short_opts (ch # rest) rargs values =
     (let opt = [CHR ''-'', ch] in
      case find (\<lambda>option. opt \<in> set (short_opts option)) parser_options of
        None \<Rightarrow> Inl (Stop_error (NoSuchOption opt))
      | Some option \<Rightarrow>
         if takes_value (action option) then
           (case (if rest \<noteq> [] then rest # rargs else rargs) of
              [] \<Rightarrow> Inl (Stop_error (RequiresArgument opt))
            | v # rargs' \<Rightarrow>
                (case process opt (action option) (Some v) values of
                   Inl stop \<Rightarrow> Inl stop
                 | Inr values' \<Rightarrow> Inr (rargs', values')))
         else (case process opt (action option) None values of
                 Inl stop \<Rightarrow> Inl stop
               | Inr values' \<Rightarrow> process_short_opts rest rargs values'))"

text \<open>
  \<open>_process_args\<close> with \<open>allow_interspersed_args\<close> (the default); the result is the
  values with \<open>largs + rargs\<close>.
\<close>

function process_args ::
  "string list \<Rightarrow> string list \<Rightarrow> Values \<Rightarrow> parse_stop + (Values \<times> string list)" where
  "process_args largs [] values = Inr (values, largs)"
| "process_args largs (arg # rargs) values =
     (if arg = ''--'' then Inr (values, largs @ rargs)
      else if take 2 arg = ''--'' then
        (case process_long_opt arg rargs values of
           Inl stop \<Rightarrow> Inl stop
         | Inr (rargs', values') \<Rightarrow> process_args largs rargs' values')
      else if take 1 arg = ''-'' \<and> length arg > 1 then
        (case process_short_opts (tl arg) rargs values of
           Inl stop \<Rightarrow> Inl stop
         | Inr (rargs', values') \<Rightarrow> process_args largs rargs' values')
      else process_args (largs @ [arg]) rargs values)"
  by pat_completeness auto
termination
proof (relation "measure (\<lambda>(largs, rargs, vals). length rargs)")
  show "wf (measure (\<lambda>(largs, rargs, vals). length rargs))" by simp
next
  fix largs :: "string list" and arg rargs vals x2 x y
  assume "process_long_opt arg rargs vals = Inr x2" "(x, y) = x2"
  then show "((largs, x, y), largs, arg # rargs, vals)
               \<in> measure (\<lambda>(largs, rargs, vals). length rargs)"
    by (auto simp: process_long_opt_def Let_def
             split: sum.splits option.splits if_splits list.splits)
next
  fix largs :: "string list" and arg rargs vals x2 x y
  assume a: "process_short_opts (tl arg) rargs vals = Inr x2" "(x, y) = x2"
  have "process_short_opts cs rs vs = Inr (r, v) \<Longrightarrow> length r \<le> length rs" for cs rs vs r v
    by (induction cs rs vs rule: process_short_opts.induct)
       (auto simp: Let_def split: sum.splits option.splits if_splits list.splits)
  with a have "length x \<le> length rargs" by metis
  then show "((largs, x, y), largs, arg # rargs, vals)
               \<in> measure (\<lambda>(largs, rargs, vals). length rargs)"
    by simp
next
  fix largs :: "string list" and arg rargs and vals :: Values
  show "((largs @ [arg], rargs, vals), largs, arg # rargs, vals)
          \<in> measure (\<lambda>(largs, rargs, vals). length rargs)"
    by simp
qed

text \<open>
  \<open>parser.parse_args(args)\<close>: the parse starts from the defaults; an early end prints and
  raises \<open>SystemExit\<close>.
\<close>

definition parse_args :: "string list \<Rightarrow> ('w, Values \<times> string list) prog" where
  "parse_args args =
     (case process_args [] args get_default_values of
        Inr r \<Rightarrow> return r
      | Inl Stop_help \<Rightarrow> bind (emit PrintHelp) (\<lambda>_. raise (SystemExit 0))
      | Inl Stop_version \<Rightarrow> bind (emit (Print version)) (\<lambda>_. raise (SystemExit 0))
      | Inl (Stop_error e) \<Rightarrow> bind (emit (PrintError e)) (\<lambda>_. raise (SystemExit 2)))"

section \<open>BuilderApp\<close>

text \<open>
  \<open>has_builder_file\<close>: the directory has the build file when the file opens for reading;
  an \<open>IOError\<close> of \<open>open\<close> is caught and answers \<open>False\<close>.
\<close>

definition has_builder_file :: "os \<Rightarrow> ('w, 'h) modules \<Rightarrow> string \<Rightarrow> ('w, bool) prog" where
  "has_builder_file os m dirname =
     (let fname = join dirname (builder_filename m) in
      bind (emit (Open fname)) (\<lambda>_.
      case os_open os fname of
        Inr ifile \<Rightarrow> bind (emit Close) (\<lambda>_. return True)
      | Inl ioerror \<Rightarrow> return False))"

text \<open>
  \<open>validate_dirs\<close>, statement by statement. Line 79 stores the module's \<open>options\<close> in
  \<open>self.options\<close>; \<open>__init__\<close> assigns the same object again on line 61 and an exception
  leaves no \<open>BuilderApp\<close> behind, so the assignment is not part of the result.
\<close>

definition validate_dirs ::
  "os \<Rightarrow> ('w, 'h) modules \<Rightarrow> string \<Rightarrow> string \<Rightarrow> ('w, string \<times> string) prog" where
  "validate_dirs os m dir1 dir2 =
     bind (abspath os dir1) (\<lambda>ndir1.
     bind (abspath os dir2) (\<lambda>ndir2.
     bind (stat os ndir1) (\<lambda>st1.
     if \<not> S_ISDIR (st_mode st1) then raise (RuntimeError (dir1 @ '' is not a directory''))
     else
     bind (stat os ndir2) (\<lambda>st2.
     if \<not> S_ISDIR (st_mode st2) then raise (RuntimeError (dir2 @ '' is not a directory''))
     else
     bind (samefile os dir1 dir2) (\<lambda>same.
     if same then raise (RuntimeError
       ''Source and build directories must not be the same. Create a pristine build directory.'')
     else
     bind (has_builder_file os m ndir1) (\<lambda>has1.
     if has1 then
       bind (has_builder_file os m ndir2) (\<lambda>has2.
       if has2 then raise (RuntimeError
         (''Both directories contain a build file '' @ builder_filename m @ ''.''))
       else return (ndir1, ndir2))
     else
     bind (has_builder_file os m ndir2) (\<lambda>has2.
     if has2 then return (ndir2, ndir1)
     else raise (RuntimeError
       (''Neither directory contains a build file '' @ builder_filename m @ ''.'')))))))))"

text \<open>The object \<open>__init__\<close> leaves behind: the four attributes of \<open>self\<close>.\<close>

record BuilderApp =
  source_dir :: string
  build_dir :: string
  builder_script_file :: string
  options :: Values

text \<open>
  \<open>__init__\<close>: the directories are validated first, then the first character of the
  prefix is read (\<open>options.prefix[0]\<close>, an \<open>IndexError\<close> on the empty string).
\<close>

definition BuilderApp_init ::
  "os \<Rightarrow> ('w, 'h) modules \<Rightarrow> string \<Rightarrow> string \<Rightarrow> string \<Rightarrow> Values \<Rightarrow> ('w, BuilderApp) prog" where
  "BuilderApp_init os m dir1 dir2 script_file opts =
     bind (validate_dirs os m dir1 dir2) (\<lambda>(sdir, bdir).
     bind (case prefix opts of [] \<Rightarrow> raise IndexError | c # _ \<Rightarrow> return c) (\<lambda>c.
     if c \<noteq> CHR ''/'' then raise (RuntimeError ''--prefix must be an absolute path.'')
     else return \<lparr>source_dir = sdir, build_dir = bdir,
                   builder_script_file = script_file, options = opts\<rparr>))"

text \<open>
  \<open>generate\<close> reads the options from the module's global \<open>options\<close>, here the argument
  \<open>opts\<close>. The double quote of the last message is \<open>CHR 0x22\<close>.
\<close>

definition generate :: "('w, 'h) modules \<Rightarrow> Values \<Rightarrow> BuilderApp \<Rightarrow> ('w, unit) prog" where
  "generate m opts self =
     bind (call Environment_new
             (Environment m (source_dir self) (build_dir self) (builder_script_file self) opts))
       (\<lambda>env.
     bind (call Build_new (Build m env)) (\<lambda>b.
     bind (call Interpreter_new (Interpreter m b)) (\<lambda>intr.
     bind (call Interpreter_run (Interpreter_run_method m intr)) (\<lambda>_.
     bind (if generator opts = ''shell''
           then call ShellGenerator_new (ShellGenerator m b intr)
           else if generator opts = ''ninja''
           then call NinjaGenerator_new (NinjaGenerator m b intr)
           else raise (RuntimeError
                  (''Unknown generator '' @ [CHR 0x22] @ generator opts @ [CHR 0x22] @ ''.'')))
       (\<lambda>g.
     call Generator_generate (Generator_generate_method m g))))))"

section \<open>The main block\<close>

text \<open>Indexing a list: \<open>xs[i]\<close> for \<open>i \<ge> 0\<close> raises \<open>IndexError\<close> out of range.\<close>

definition index :: "'a list \<Rightarrow> nat \<Rightarrow> ('w, 'a) prog" where
  "index xs i = (if i < length xs then return (xs ! i) else raise IndexError)"

text \<open>
  The script's main block (lines 104 to 118) for the command line \<open>argv\<close> (\<open>sys.argv\<close>)
  and the script's path \<open>file\<close> (\<open>__file__\<close>). The whole of \<open>sys.argv\<close> goes to the parser,
  so \<open>args\<close> starts with the program name.
\<close>

definition main :: "os \<Rightarrow> ('w, 'h) modules \<Rightarrow> string \<Rightarrow> string list \<Rightarrow> ('w, unit) prog" where
  "main os m file argv =
     bind (parse_args argv) (\<lambda>(opts, args).
     if length args = 1 \<or> length args > 3 then
       bind (index argv 0) (\<lambda>argv0.
       bind (emit (Print (argv0 @ '' <source directory> <build directory>''))) (\<lambda>_.
       bind (emit (Print
              ''If you omit either directory, the current directory is substituted.'')) (\<lambda>_.
       raise (SystemExit 1))))
     else
     bind (index args 1) (\<lambda>dir1.
     bind (if length args > 2 then index args 2 else return ''.'') (\<lambda>dir2.
     bind (abspath os file) (\<lambda>this_file.
     bind (BuilderApp_init os m dir1 dir2 this_file opts) (\<lambda>builder.
     bind (emit (Print (''Source dir: '' @ source_dir builder))) (\<lambda>_.
     bind (emit (Print (''Build dir: '' @ build_dir builder))) (\<lambda>_.
     generate m opts builder)))))))"

text \<open>
  The exit status of the process: 0 when the script runs to its end, the argument of
  \<open>sys.exit\<close>, and 1 for an exception nobody catches.
\<close>

fun exit_status :: "exn + 'a \<Rightarrow> int" where
  "exit_status (Inr _) = 0"
| "exit_status (Inl (SystemExit n)) = n"
| "exit_status (Inl _) = 1"

section \<open>The error kinds of the specification\<close>

text \<open>
  The script raises \<open>RuntimeError\<close> everywhere; the kinds of the specification are told
  apart by the message.
\<close>

definition InvalidPrefixError :: exn where
  "InvalidPrefixError = RuntimeError ''--prefix must be an absolute path.''"

definition NotADirectoryError :: "string \<Rightarrow> exn" where
  "NotADirectoryError path = RuntimeError (path @ '' is not a directory'')"

definition SameDirectoryError :: exn where
  "SameDirectoryError = RuntimeError
     ''Source and build directories must not be the same. Create a pristine build directory.''"

definition AmbiguousMarkerError :: "('w, 'h) modules \<Rightarrow> exn" where
  "AmbiguousMarkerError m =
     RuntimeError (''Both directories contain a build file '' @ builder_filename m @ ''.'')"

definition MissingMarkerError :: "('w, 'h) modules \<Rightarrow> exn" where
  "MissingMarkerError m =
     RuntimeError (''Neither directory contains a build file '' @ builder_filename m @ ''.'')"

definition UnknownGeneratorError :: "string \<Rightarrow> exn" where
  "UnknownGeneratorError name =
     RuntimeError (''Unknown generator '' @ [CHR 0x22] @ name @ [CHR 0x22] @ ''.'')"

section \<open>Reading a run\<close>

text \<open>
  The canonical form \<open>abspath\<close> returns and the reads of the current directory it makes;
  what it is for a path to be a directory (\<open>os.stat\<close> succeeds and \<open>S_ISDIR\<close> holds) and
  for a directory to hold the build file (the script's own test: the file opens for
  reading); the result and the trace of a run.
\<close>

definition abspath_of :: "os \<Rightarrow> string \<Rightarrow> string" where
  "abspath_of os path = normpath (if isabs path then path else join (os_getcwd os) path)"

definition cwd_reads :: "string \<Rightarrow> event list" where
  "cwd_reads path = (if isabs path then [] else [Getcwd])"

definition is_dir :: "os \<Rightarrow> string \<Rightarrow> bool" where
  "is_dir os path = (case os_stat os path of Inl _ \<Rightarrow> False | Inr st \<Rightarrow> S_ISDIR (st_mode st))"

definition has_marker :: "os \<Rightarrow> ('w, 'h) modules \<Rightarrow> string \<Rightarrow> bool" where
  "has_marker os m dirname = (\<not> isl (os_open os (join dirname (builder_filename m))))"

definition result_of :: "(exn + 'a) \<times> event list \<times> 'w \<Rightarrow> exn + 'a" where
  "result_of r = fst r"

definition trace_of :: "(exn + 'a) \<times> event list \<times> 'w \<Rightarrow> event list" where
  "trace_of r = fst (snd r)"

text \<open>The collaborator calls of a trace, in order, each with whether it returned.\<close>

fun calls_of :: "event list \<Rightarrow> (stage \<times> bool) list" where
  "calls_of [] = []"
| "calls_of (Called st ok # tr) = (st, ok) # calls_of tr"
| "calls_of (_ # tr) = calls_of tr"

text \<open>
  The calls \<open>generate\<close> makes when nothing fails, for a generator name, and what it is for
  a trace to follow them: the calls are made in this order and a call that raised is the
  last one.
\<close>

definition pipeline :: "string \<Rightarrow> stage list" where
  "pipeline name =
     [Environment_new, Build_new, Interpreter_new, Interpreter_run] @
     (if name = ''shell'' then [ShellGenerator_new, Generator_generate]
      else if name = ''ninja'' then [NinjaGenerator_new, Generator_generate]
      else [])"

fun gated :: "(stage \<times> bool) list \<Rightarrow> stage list \<Rightarrow> bool" where
  "gated [] expected = True"
| "gated ((st, ok) # cs) [] = False"
| "gated ((st, ok) # cs) (e # es) = (st = e \<and> (if ok then gated cs es else cs = []))"

text \<open>
  A trace runs through the expected calls when it follows them and stops only after a
  call that raised or after the last expected call: every call whose predecessors all
  returned is made.
\<close>

fun run_through :: "(stage \<times> bool) list \<Rightarrow> stage list \<Rightarrow> bool" where
  "run_through [] expected = (expected = [])"
| "run_through ((st, ok) # cs) [] = False"
| "run_through ((st, ok) # cs) (e # es) = (st = e \<and> (if ok then run_through cs es else cs = []))"

text \<open>Lines 114 to 118 of the script, for the directories and options they receive.\<close>

definition build_in ::
  "os \<Rightarrow> ('w, 'h) modules \<Rightarrow> string \<Rightarrow> Values \<Rightarrow> string \<Rightarrow> string \<Rightarrow> ('w, unit) prog" where
  "build_in os m file opts dir1 dir2 =
     bind (abspath os file) (\<lambda>this_file.
     bind (BuilderApp_init os m dir1 dir2 this_file opts) (\<lambda>builder.
     bind (emit (Print (''Source dir: '' @ source_dir builder))) (\<lambda>_.
     bind (emit (Print (''Build dir: '' @ build_dir builder))) (\<lambda>_.
     generate m opts builder))))"

section \<open>An example\<close>

text \<open>
  A small file system for running the script: the current directory \<open>/w\<close> holds the
  directories \<open>src\<close> and \<open>src2\<close> (each with a build file), \<open>out\<close> and \<open>empty\<close> (without),
  \<open>link\<close>, a symbolic link to \<open>out\<close>, and the regular file \<open>f\<close>. Every entry is listed
  under its absolute and its relative spelling; the modes are \<open>0o40755\<close> and \<open>0o100644\<close>.
\<close>

definition example_dir :: "int \<Rightarrow> stat_result" where
  "example_dir ino = \<lparr>st_mode = 0x41ED, st_ino = ino, st_dev = 1\<rparr>"

definition example_files :: "(string \<times> stat_result) list" where
  "example_files =
    [(''/w'', example_dir 1), (''.'', example_dir 1),
     (''/w/src'', example_dir 2), (''src'', example_dir 2),
     (''/w/out'', example_dir 3), (''out'', example_dir 3),
     (''/w/link'', example_dir 3), (''link'', example_dir 3),
     (''/w/f'', \<lparr>st_mode = 0x81A4, st_ino = 4, st_dev = 1\<rparr>),
     (''f'', \<lparr>st_mode = 0x81A4, st_ino = 4, st_dev = 1\<rparr>),
     (''/w/empty'', example_dir 5), (''empty'', example_dir 5),
     (''/w/src2'', example_dir 6), (''src2'', example_dir 6)]"

definition example_os :: os where
  "example_os =
    \<lparr>os_getcwd = ''/w'',
     os_stat = (\<lambda>path. case map_of example_files path of
                         None \<Rightarrow> Inl ENOENT
                       | Some st \<Rightarrow> Inr st),
     os_open = (\<lambda>path. if path = ''/w/src/meson.build'' \<or> path = ''/w/src2/meson.build''
                       then Inr () else Inl ENOENT)\<rparr>"

text \<open>
  Collaborators that count their calls in the state and hand out numbered handles; the
  stages in \<open>failing\<close> raise.
\<close>

definition example_call :: "stage set \<Rightarrow> stage \<Rightarrow> 'a \<Rightarrow> nat \<Rightarrow> (exn + 'a) \<times> nat" where
  "example_call failing st x w =
     (if st \<in> failing then Inl (Exception ''collaborator failed'') else Inr x, Suc w)"

definition example_modules :: "stage set \<Rightarrow> (nat, nat) modules" where
  "example_modules failing =
    \<lparr>builder_filename = ''meson.build'',
     Environment = (\<lambda>sdir bdir script opts. example_call failing Environment_new 1),
     Build = (\<lambda>env. example_call failing Build_new 2),
     Interpreter = (\<lambda>b. example_call failing Interpreter_new 3),
     Interpreter_run_method = (\<lambda>intr. example_call failing Interpreter_run ()),
     ShellGenerator = (\<lambda>b intr. example_call failing ShellGenerator_new 4),
     NinjaGenerator = (\<lambda>b intr. example_call failing NinjaGenerator_new 5),
     Generator_generate_method = (\<lambda>g. example_call failing Generator_generate ())\<rparr>"

text \<open>The application object for \<open>src\<close> and \<open>out\<close>, as \<open>__init__\<close> builds it.\<close>

definition example_app :: BuilderApp where
  "example_app = \<lparr>source_dir = ''/w/src'', build_dir = ''/w/out'',
     builder_script_file = ''/w/meson.py'', options = get_default_values\<rparr>"

section \<open>Running the pieces\<close>

text \<open>
  What each library call returns and adds to the trace, and \<open>validate_dirs\<close> as one
  case distinction over what \<open>os.stat\<close> and \<open>open\<close> answer.
\<close>

lemmas prog_defs = bind_def return_def raise_def emit_def

lemma abspath_run:
  "abspath os path (tr, w) = (Inr (abspath_of os path), (tr @ cwd_reads path, w))"
  by (simp add: abspath_def abspath_of_def cwd_reads_def getcwd_def prog_defs)

lemma stat_run:
  "stat os path (tr, w) =
     ((case os_stat os path of Inl en \<Rightarrow> Inl (OSError en path) | Inr st \<Rightarrow> Inr st),
      (tr @ [Stat path], w))"
  by (simp add: stat_def prog_defs split: sum.splits)

lemma samefile_run:
  "samefile os f1 f2 (tr, w) =
     (case os_stat os f1 of
        Inl en \<Rightarrow> (Inl (OSError en f1), (tr @ [Stat f1], w))
      | Inr s1 \<Rightarrow>
         (case os_stat os f2 of
            Inl en \<Rightarrow> (Inl (OSError en f2), (tr @ [Stat f1, Stat f2], w))
          | Inr s2 \<Rightarrow> (Inr (samestat s1 s2), (tr @ [Stat f1, Stat f2], w))))"
  by (simp add: samefile_def stat_run bind_def return_def split: sum.splits)

lemma has_builder_file_run:
  "has_builder_file os m d (tr, w) =
     (Inr (has_marker os m d),
      (tr @ Open (join d (builder_filename m)) # (if has_marker os m d then [Close] else []), w))"
  by (simp add: has_builder_file_def has_marker_def prog_defs Let_def split: sum.splits)

lemma validate_dirs_run:
  "validate_dirs os m A B (tr, w) =
    (let n1 = abspath_of os A; n2 = abspath_of os B;
         t0 = tr @ cwd_reads A @ cwd_reads B;
         f1 = join n1 (builder_filename m); f2 = join n2 (builder_filename m)
     in case os_stat os n1 of
          Inl en \<Rightarrow> (Inl (OSError en n1), (t0 @ [Stat n1], w))
        | Inr st1 \<Rightarrow>
       if \<not> S_ISDIR (st_mode st1) then (Inl (NotADirectoryError A), (t0 @ [Stat n1], w))
       else case os_stat os n2 of
          Inl en \<Rightarrow> (Inl (OSError en n2), (t0 @ [Stat n1, Stat n2], w))
        | Inr st2 \<Rightarrow>
       if \<not> S_ISDIR (st_mode st2) then (Inl (NotADirectoryError B), (t0 @ [Stat n1, Stat n2], w))
       else case os_stat os A of
          Inl en \<Rightarrow> (Inl (OSError en A), (t0 @ [Stat n1, Stat n2, Stat A], w))
        | Inr sa \<Rightarrow>
       (case os_stat os B of
          Inl en \<Rightarrow> (Inl (OSError en B), (t0 @ [Stat n1, Stat n2, Stat A, Stat B], w))
        | Inr sb \<Rightarrow>
       if samestat sa sb
       then (Inl SameDirectoryError, (t0 @ [Stat n1, Stat n2, Stat A, Stat B], w))
       else if has_marker os m n1 then
         if has_marker os m n2
         then (Inl (AmbiguousMarkerError m),
               (t0 @ [Stat n1, Stat n2, Stat A, Stat B, Open f1, Close, Open f2, Close], w))
         else (Inr (n1, n2),
               (t0 @ [Stat n1, Stat n2, Stat A, Stat B, Open f1, Close, Open f2], w))
       else if has_marker os m n2
         then (Inr (n2, n1),
               (t0 @ [Stat n1, Stat n2, Stat A, Stat B, Open f1, Open f2, Close], w))
         else (Inl (MissingMarkerError m),
               (t0 @ [Stat n1, Stat n2, Stat A, Stat B, Open f1, Open f2], w))))"
  by (simp add: validate_dirs_def abspath_run stat_run samefile_run has_builder_file_run
        bind_def return_def raise_def Let_def NotADirectoryError_def SameDirectoryError_def
        AmbiguousMarkerError_def MissingMarkerError_def
      split: sum.splits)

lemma call_run:
  "f w = (r, w') \<Longrightarrow> call st f (tr, w) = (r, (tr @ [Called st (\<not> isl r)], w'))"
  by (simp add: call_def)

lemma calls_of_append: "calls_of (xs @ ys) = calls_of xs @ calls_of ys"
  by (induction xs rule: calls_of.induct) simp_all

lemma calls_of_cwd_reads: "calls_of (cwd_reads path) = []"
  by (simp add: cwd_reads_def)

lemma validate_dirs_trace:
  "\<exists>evs. snd (validate_dirs os m A B (tr, w)) = (tr @ evs, w) \<and> calls_of evs = []"
  by (simp add: validate_dirs_run Let_def calls_of_append calls_of_cwd_reads split: sum.splits)

lemma validate_dirs_result_state:
  "result_of (validate_dirs os m A B s) = result_of (validate_dirs os m A B s')"
  by (cases s; cases s') (simp add: validate_dirs_run Let_def result_of_def split: sum.splits)

lemma BuilderApp_init_trace:
  "\<exists>evs. snd (BuilderApp_init os m A B f opts (tr, w)) = (tr @ evs, w) \<and> calls_of evs = []"
proof -
  obtain r evs where v: "validate_dirs os m A B (tr, w) = (r, (tr @ evs, w))" "calls_of evs = []"
    using validate_dirs_trace [of os m A B tr w] by (cases "validate_dirs os m A B (tr, w)") auto
  then show ?thesis
    by (cases r) (auto simp: BuilderApp_init_def bind_def return_def raise_def split: list.splits)
qed

lemma BuilderApp_init_fails:
  "result_of (validate_dirs os m A B s) = Inl e \<Longrightarrow>
   result_of (BuilderApp_init os m A B f opts s) = Inl e"
  by (cases "validate_dirs os m A B s") (auto simp: BuilderApp_init_def bind_def result_of_def)

lemma generate_calls:
  "\<exists>evs w'. snd (generate m opts self (tr, w)) = (tr @ evs, w')
      \<and> gated (calls_of evs) (pipeline (generator opts))"
  by (simp add: generate_def bind_def raise_def call_def pipeline_def
      split: prod.splits sum.splits)

lemma startswith_slash: "startswith s ''/'' \<longleftrightarrow> (\<exists>t. s = CHR ''/'' # t)"
  by (cases s) (auto simp: startswith_def)

lemma isabs_normpath: "isabs path \<Longrightarrow> isabs (normpath path)"
  by (auto simp: isabs_def startswith_slash normpath_def Let_def numeral_2_eq_2)

lemma isabs_join: "isabs a \<Longrightarrow> isabs (join a b)"
  by (auto simp: isabs_def startswith_slash join_def)

lemma isabs_abspath_of: "isabs (os_getcwd os) \<Longrightarrow> isabs (abspath_of os path)"
  by (simp add: abspath_of_def isabs_normpath isabs_join)

lemma take2_dashes: "take 2 arg = ''--'' \<Longrightarrow> take (Suc 0) arg = ''-''"
  by (cases arg) (auto simp: numeral_2_eq_2)

lemma process_args_no_options:
  "\<forall>arg \<in> set rargs. \<not> startswith arg ''-'' \<Longrightarrow>
   process_args largs rargs vals = Inr (vals, largs @ rargs)"
proof (induction rargs arbitrary: largs)
  case Nil
  show ?case by simp
next
  case (Cons arg rargs)
  from Cons.prems have nodash: "take (Suc 0) arg \<noteq> ''-''" and rest: "\<forall>a \<in> set rargs. \<not> startswith a ''-''"
    by (simp_all add: startswith_def)
  from nodash have "arg \<noteq> ''--''" "take 2 arg \<noteq> ''--''"
    using take2_dashes by auto
  with nodash Cons.IH [OF rest] show ?case by simp
qed

lemma parse_args_ok:
  "process_args [] argv get_default_values = Inr (opts, args) \<Longrightarrow>
   parse_args argv s = (Inr (opts, args), s)"
  by (simp add: parse_args_def return_def)

lemma parse_args_stop:
  "process_args [] argv get_default_values = Inl stop \<Longrightarrow>
   \<exists>e evs. parse_args argv (tr, w) = (Inl e, (tr @ evs, w)) \<and> calls_of evs = []"
  by (cases stop) (simp_all add: parse_args_def bind_def emit_def raise_def)

lemma main_usage:
  assumes "process_args [] (prog # rest) get_default_values = Inr (opts, args)"
    and "length args = 1 \<or> length args > 3"
  shows "main os m script (prog # rest) (tr, w) =
           (Inl (SystemExit 1),
            (tr @ [Print (prog @ '' <source directory> <build directory>''),
                   Print ''If you omit either directory, the current directory is substituted.''],
             w))"
  using assms
  by (auto simp add: main_def parse_args_ok bind_def emit_def raise_def return_def index_def)

lemma main_build_in:
  assumes "process_args [] argv get_default_values = Inr (opts, args)"
    and "length args = 2 \<or> length args = 3"
  shows "main os m script argv s =
           build_in os m script opts (args ! 1) (if length args > 2 then args ! 2 else ''.'') s"
  using assms
  by (auto simp add: main_def build_in_def parse_args_ok bind_def return_def index_def)

lemma main_no_args:
  assumes "process_args [] argv get_default_values = Inr (opts, [])"
  shows "main os m script argv s = (Inl IndexError, s)"
  using assms
  by (simp add: main_def parse_args_ok bind_def return_def raise_def index_def)

lemma build_in_calls:
  "\<exists>evs w'. snd (build_in os m script opts A B (tr, w)) = (tr @ evs, w')
      \<and> gated (calls_of evs) (pipeline (generator opts))"
proof -
  let ?t1 = "tr @ cwd_reads script"
  obtain r evs where i: "BuilderApp_init os m A B (abspath_of os script) opts (?t1, w) = (r, (?t1 @ evs, w))"
      and c: "calls_of evs = []"
    using BuilderApp_init_trace [of os m A B "abspath_of os script" opts ?t1 w]
    by (cases "BuilderApp_init os m A B (abspath_of os script) opts (?t1, w)") auto
  show ?thesis
  proof (cases r)
    case (Inl e)
    with i c show ?thesis
      by (simp add: build_in_def abspath_run bind_def calls_of_append calls_of_cwd_reads)
  next
    case (Inr builder)
    let ?t2 = "?t1 @ evs @ [Print (''Source dir: '' @ source_dir builder),
                            Print (''Build dir: '' @ build_dir builder)]"
    obtain gevs w' where g: "snd (generate m opts builder (?t2, w)) = (?t2 @ gevs, w')"
        and gg: "gated (calls_of gevs) (pipeline (generator opts))"
      using generate_calls [of m opts builder ?t2 w] by auto
    from Inr i have "build_in os m script opts A B (tr, w) = generate m opts builder (?t2, w)"
      by (simp add: build_in_def abspath_run bind_def emit_def)
    with g gg c show ?thesis
      by (simp add: calls_of_append calls_of_cwd_reads)
  qed
qed

lemma build_in_fails:
  assumes "result_of (validate_dirs os m A B s0) = Inl e"
  shows "result_of (build_in os m script opts A B (tr, w)) = Inl e
       \<and> calls_of (trace_of (build_in os m script opts A B (tr, w))) = calls_of tr"
proof -
  let ?t1 = "tr @ cwd_reads script"
  from assms have "result_of (validate_dirs os m A B (?t1, w)) = Inl e"
    using validate_dirs_result_state by metis
  then have r: "result_of (BuilderApp_init os m A B (abspath_of os script) opts (?t1, w)) = Inl e"
    by (rule BuilderApp_init_fails)
  obtain evs where "snd (BuilderApp_init os m A B (abspath_of os script) opts (?t1, w)) = (?t1 @ evs, w)"
      and "calls_of evs = []"
    using BuilderApp_init_trace [of os m A B "abspath_of os script" opts ?t1 w] by auto
  with r show ?thesis
    by (cases "BuilderApp_init os m A B (abspath_of os script) opts (?t1, w)")
       (simp add: build_in_def abspath_run bind_def calls_of_append calls_of_cwd_reads
          result_of_def trace_of_def)
qed

lemma gated_Nil: "gated cs [] \<longleftrightarrow> cs = []"
  by (cases cs) auto

lemma gated_Cons:
  "gated cs (e # es) \<longleftrightarrow>
     cs = [] \<or> cs = [(e, False)] \<or> (\<exists>cs'. cs = (e, True) # cs' \<and> gated cs' es)"
  by (cases cs) (auto split: if_splits)

lemma gated_no_generator:
  assumes "gated cs (pipeline name)"
    and "(Interpreter_new, False) \<in> set cs \<or> (Interpreter_run, False) \<in> set cs"
  shows "\<forall>ok. (ShellGenerator_new, ok) \<notin> set cs \<and> (NinjaGenerator_new, ok) \<notin> set cs
            \<and> (Generator_generate, ok) \<notin> set cs"
  using assms
  by (auto simp add: pipeline_def gated_Cons gated_Nil split: if_splits)

lemma main_calls:
  "\<exists>name. gated (calls_of (trace_of (main os m script argv ([], w)))) (pipeline name)"
proof (cases "process_args [] argv get_default_values")
  case (Inl stop)
  from parse_args_stop [OF Inl, of "[]" w]
  show ?thesis by (auto simp add: main_def bind_def trace_of_def)
next
  case (Inr r)
  obtain opts args where r: "r = (opts, args)" by (cases r)
  with Inr have p: "process_args [] argv get_default_values = Inr (opts, args)" by simp
  have "length args = 0 \<or> length args = 1 \<or> length args = 2 \<or> length args = 3
          \<or> length args > 3" by arith
  then consider "args = []" | "length args = 1 \<or> length args > 3"
    | "length args = 2 \<or> length args = 3"
    by auto
  then show ?thesis
  proof cases
    case 1
    with p have "main os m script argv ([], w) = (Inl IndexError, ([], w))"
      by (simp add: main_no_args)
    then show ?thesis by (simp add: trace_of_def)
  next
    case 2
    then have "argv \<noteq> []" using p by (cases argv) auto
    then obtain prog rest where argv: "argv = prog # rest" by (cases argv) auto
    from p have p': "process_args [] (prog # rest) get_default_values = Inr (opts, args)"
      by (simp only: argv)
    show ?thesis
      unfolding argv main_usage [OF p' 2, where tr = "[]"] by (simp add: trace_of_def)
  next
    case 3
    from build_in_calls [of os m script opts "args ! 1" "if length args > 2 then args ! 2 else ''.''" "[]" w]
    show ?thesis
      unfolding main_build_in [OF p 3] by (auto simp add: trace_of_def)
  qed
qed

lemma generate_run_through:
  "run_through (calls_of (trace_of (generate m opts self ([], w)))) (pipeline (generator opts))"
  by (simp add: generate_def bind_def raise_def call_def pipeline_def trace_of_def
      split: prod.splits sum.splits)

lemma generate_shift:
  "generate m opts self (tr, w) =
     (case generate m opts self ([], w) of (r, (evs, w')) \<Rightarrow> (r, (tr @ evs, w')))"
  by (simp add: generate_def bind_def raise_def call_def split: prod.splits sum.splits)

lemma generate_succeeds_shell:
  assumes "Environment m (source_dir self) (build_dir self) (builder_script_file self) opts w0
             = (Inr env, w1)"
    and "Build m env w1 = (Inr b, w2)"
    and "Interpreter m b w2 = (Inr intr, w3)"
    and "Interpreter_run_method m intr w3 = (Inr (), w4)"
    and "generator opts = ''shell''"
    and "ShellGenerator m b intr w4 = (Inr g, w5)"
    and "Generator_generate_method m g w5 = (Inr (), w6)"
  shows "generate m opts self (tr, w0) =
           (Inr (), (tr @ [Called Environment_new True, Called Build_new True,
                           Called Interpreter_new True, Called Interpreter_run True,
                           Called ShellGenerator_new True, Called Generator_generate True], w6))"
  using assms by (simp add: generate_def bind_def call_run)

lemma generate_succeeds_ninja:
  assumes "Environment m (source_dir self) (build_dir self) (builder_script_file self) opts w0
             = (Inr env, w1)"
    and "Build m env w1 = (Inr b, w2)"
    and "Interpreter m b w2 = (Inr intr, w3)"
    and "Interpreter_run_method m intr w3 = (Inr (), w4)"
    and "generator opts = ''ninja''"
    and "NinjaGenerator m b intr w4 = (Inr g, w5)"
    and "Generator_generate_method m g w5 = (Inr (), w6)"
  shows "generate m opts self (tr, w0) =
           (Inr (), (tr @ [Called Environment_new True, Called Build_new True,
                           Called Interpreter_new True, Called Interpreter_run True,
                           Called NinjaGenerator_new True, Called Generator_generate True], w6))"
  using assms by (simp add: generate_def bind_def call_run)

lemma BuilderApp_init_result_state:
  "result_of (BuilderApp_init os m A B f opts s) = result_of (BuilderApp_init os m A B f opts s')"
proof -
  have "result_of (BuilderApp_init os m A B f opts t) =
          (case result_of (validate_dirs os m A B t) of
             Inl e \<Rightarrow> Inl e
           | Inr (sdir, bdir) \<Rightarrow>
               (case prefix opts of
                  [] \<Rightarrow> Inl IndexError
                | c # _ \<Rightarrow>
                    if c \<noteq> CHR ''/'' then Inl (RuntimeError ''--prefix must be an absolute path.'')
                    else Inr \<lparr>source_dir = sdir, build_dir = bdir,
                               builder_script_file = f, options = opts\<rparr>))" for t
    by (cases "validate_dirs os m A B t")
       (auto simp: BuilderApp_init_def bind_def return_def raise_def result_of_def
             split: sum.splits list.splits)
  then show ?thesis
    using validate_dirs_result_state [of os m A B s s'] by simp
qed

lemma build_in_succeeds:
  assumes "result_of (BuilderApp_init os m A B (abspath_of os script) opts s0) = Inr builder"
  shows "result_of (build_in os m script opts A B ([], w)) = result_of (generate m opts builder ([], w))
       \<and> calls_of (trace_of (build_in os m script opts A B ([], w)))
           = calls_of (trace_of (generate m opts builder ([], w)))"
proof -
  let ?t1 = "cwd_reads script"
  from assms have r: "result_of (BuilderApp_init os m A B (abspath_of os script) opts (?t1, w))
      = Inr builder"
    using BuilderApp_init_result_state by metis
  obtain evs where e: "snd (BuilderApp_init os m A B (abspath_of os script) opts (?t1, w))
       = (?t1 @ evs, w)" and c: "calls_of evs = []"
    using BuilderApp_init_trace [of os m A B "abspath_of os script" opts ?t1 w] by auto
  from r e have i: "BuilderApp_init os m A B (abspath_of os script) opts (?t1, w)
      = (Inr builder, (?t1 @ evs, w))"
    by (cases "BuilderApp_init os m A B (abspath_of os script) opts (?t1, w)")
       (simp add: result_of_def)
  let ?t2 = "?t1 @ evs @ [Print (''Source dir: '' @ source_dir builder),
                          Print (''Build dir: '' @ build_dir builder)]"
  have b: "build_in os m script opts A B ([], w) = generate m opts builder (?t2, w)"
    using i abspath_run [of os script "[]" w]
    by (simp add: build_in_def bind_def emit_def)
  have ct: "calls_of ?t2 = []"
    by (simp add: calls_of_append calls_of_cwd_reads c)
  obtain r' evs' w' where g: "generate m opts builder ([], w) = (r', (evs', w'))"
    by (metis prod_cases3)
  with generate_shift [of m opts builder ?t2 w]
  have "generate m opts builder (?t2, w) = (r', (?t2 @ evs', w'))" by simp
  with b g ct show ?thesis
    by (simp add: result_of_def trace_of_def calls_of_append)
qed

lemma validate_dirs_same:
  assumes "is_dir os (abspath_of os A)" and "is_dir os (abspath_of os B)"
    and "os_stat os A = Inr sa" and "os_stat os B = Inr sb" and "samestat sa sb"
  shows "validate_dirs os m A B (tr, w) =
           (Inl SameDirectoryError,
            (tr @ cwd_reads A @ cwd_reads B @
               [Stat (abspath_of os A), Stat (abspath_of os B), Stat A, Stat B], w))"
  using assms
  by (auto simp add: validate_dirs_run Let_def is_dir_def split: sum.splits)

lemma generate_interpreter_fails:
  assumes "Environment m (source_dir self) (build_dir self) (builder_script_file self) opts w0
             = (Inr env, w1)"
    and "Build m env w1 = (Inr b, w2)"
    and "Interpreter m b w2 = (Inr intr, w3)"
    and "Interpreter_run_method m intr w3 = (Inl e, w4)"
  shows "generate m opts self (tr, w0) =
           (Inl e, (tr @ [Called Environment_new True, Called Build_new True,
                          Called Interpreter_new True, Called Interpreter_run False], w4))"
  using assms by (simp add: generate_def bind_def call_run)

lemma example_abspath:
  "abspath_of example_os ''src'' = ''/w/src''"
  "abspath_of example_os ''out'' = ''/w/out''"
  "abspath_of example_os ''link'' = ''/w/link''"
  "abspath_of example_os ''empty'' = ''/w/empty''"
  "abspath_of example_os ''src2'' = ''/w/src2''"
  "abspath_of example_os ''f'' = ''/w/f''"
  "abspath_of example_os ''nothing'' = ''/w/nothing''"
  by code_simp+

lemma example_stages:
  "Environment (example_modules {}) (source_dir example_app) (build_dir example_app)
     (builder_script_file example_app) opts 0 = (Inr 1, 1)"
  "Build (example_modules {}) 1 1 = (Inr 2, 2)"
  "Interpreter (example_modules {}) 2 2 = (Inr 3, 3)"
  "Interpreter_run_method (example_modules {}) 3 3 = (Inr (), 4)"
  by (simp_all add: example_modules_def example_call_def)

section \<open>Directory resolution\<close>

text \<open>
  C2, as the script behaves. \<open>validate_dirs\<close> stats the canonical form of the first
  argument, then of the second, and the first check that fails decides. When \<open>os.stat\<close>
  reads the first and it is not a directory, the error is \<open>NotADirectoryError\<close> of the
  first argument; when the first is a directory and \<open>os.stat\<close> reads the second and it
  is not a directory, it is \<open>NotADirectoryError\<close> of the second. When \<open>os.stat\<close> fails
  on the first (it does not exist, say), or the first is a directory and \<open>os.stat\<close>
  fails on the second, the \<open>OSError\<close> of \<open>os.stat\<close> comes through. In each of the four
  cases the trace ends with the failing \<open>Stat\<close>: neither directory is probed for the
  build file.
\<close>

theorem C2_amended:
  "(os_stat os (abspath_of os A) = Inr st \<and> \<not> S_ISDIR (st_mode st) \<longrightarrow>
      validate_dirs os m A B (tr, w) =
        (Inl (NotADirectoryError A), (tr @ cwd_reads A @ cwd_reads B @ [Stat (abspath_of os A)], w)))
 \<and> (is_dir os (abspath_of os A) \<and> os_stat os (abspath_of os B) = Inr st \<and> \<not> S_ISDIR (st_mode st) \<longrightarrow>
      validate_dirs os m A B (tr, w) =
        (Inl (NotADirectoryError B),
         (tr @ cwd_reads A @ cwd_reads B @ [Stat (abspath_of os A), Stat (abspath_of os B)], w)))
 \<and> (os_stat os (abspath_of os A) = Inl en \<longrightarrow>
      validate_dirs os m A B (tr, w) =
        (Inl (OSError en (abspath_of os A)), (tr @ cwd_reads A @ cwd_reads B @ [Stat (abspath_of os A)], w)))
 \<and> (is_dir os (abspath_of os A) \<and> os_stat os (abspath_of os B) = Inl en \<longrightarrow>
      validate_dirs os m A B (tr, w) =
        (Inl (OSError en (abspath_of os B)),
         (tr @ cwd_reads A @ cwd_reads B @ [Stat (abspath_of os A), Stat (abspath_of os B)], w)))"
  by (auto simp add: validate_dirs_run result_of_def trace_of_def Let_def is_dir_def split: sum.splits)

text \<open>
  C2 at the example: a regular file and a missing path, in either position, and the
  missing path before the regular file, where the first check decides.
\<close>

theorem C2_witness:
  "os_stat example_os (abspath_of example_os ''f'')
     = Inr \<lparr>st_mode = 0x81A4, st_ino = 4, st_dev = 1\<rparr>
 \<and> \<not> S_ISDIR 0x81A4
 \<and> is_dir example_os (abspath_of example_os ''out'')
 \<and> os_stat example_os (abspath_of example_os ''nothing'') = Inl ENOENT
 \<and> validate_dirs example_os (example_modules {}) ''f'' ''out'' ([], 0)
     = (Inl (NotADirectoryError ''f''), ([Getcwd, Getcwd, Stat ''/w/f''], 0))
 \<and> validate_dirs example_os (example_modules {}) ''out'' ''f'' ([], 0)
     = (Inl (NotADirectoryError ''f''), ([Getcwd, Getcwd, Stat ''/w/out'', Stat ''/w/f''], 0))
 \<and> validate_dirs example_os (example_modules {}) ''nothing'' ''out'' ([], 0)
     = (Inl (OSError ENOENT ''/w/nothing''), ([Getcwd, Getcwd, Stat ''/w/nothing''], 0))
 \<and> validate_dirs example_os (example_modules {}) ''out'' ''nothing'' ([], 0)
     = (Inl (OSError ENOENT ''/w/nothing''),
        ([Getcwd, Getcwd, Stat ''/w/out'', Stat ''/w/nothing''], 0))
 \<and> validate_dirs example_os (example_modules {}) ''nothing'' ''f'' ([], 0)
     = (Inl (OSError ENOENT ''/w/nothing''), ([Getcwd, Getcwd, Stat ''/w/nothing''], 0))"
proof -
  have f: "os_stat example_os (abspath_of example_os ''f'')
             = Inr \<lparr>st_mode = 0x81A4, st_ino = 4, st_dev = 1\<rparr>"
    by code_simp
  have nd: "\<not> S_ISDIR 0x81A4" by code_simp
  have d: "is_dir example_os (abspath_of example_os ''out'')" by code_simp
  have n: "os_stat example_os (abspath_of example_os ''nothing'') = Inl ENOENT" by code_simp
  have c: "cwd_reads ''f'' = [Getcwd]" "cwd_reads ''out'' = [Getcwd]"
    "cwd_reads ''nothing'' = [Getcwd]"
    by code_simp+
  from C2_amended [where os = example_os and m = "example_modules {}" and A = "''f''"
         and B = "''out''" and tr = "[]" and w = 0
         and st = "\<lparr>st_mode = 0x81A4, st_ino = 4, st_dev = 1\<rparr>"]
       C2_amended [where os = example_os and m = "example_modules {}" and A = "''out''"
         and B = "''f''" and tr = "[]" and w = 0
         and st = "\<lparr>st_mode = 0x81A4, st_ino = 4, st_dev = 1\<rparr>"]
       C2_amended [where os = example_os and m = "example_modules {}" and A = "''nothing''"
         and B = "''out''" and tr = "[]" and w = 0 and en = ENOENT]
       C2_amended [where os = example_os and m = "example_modules {}" and A = "''out''"
         and B = "''nothing''" and tr = "[]" and w = 0 and en = ENOENT]
       C2_amended [where os = example_os and m = "example_modules {}" and A = "''nothing''"
         and B = "''f''" and tr = "[]" and w = 0 and en = ENOENT]
  show ?thesis using f nd d n by (simp add: c example_abspath)
qed

text \<open>
  C2 as stated fails: \<open>nothing\<close> does not exist, and \<open>validate_dirs\<close> ends with the
  \<open>OSError\<close> of \<open>os.stat\<close>, which is not \<open>NotADirectoryError\<close>.
\<close>

theorem C2_counterexample:
  "os_stat example_os (abspath_of example_os ''nothing'') = Inl ENOENT
 \<and> validate_dirs example_os (example_modules {}) ''nothing'' ''out'' ([], 0)
     = (Inl (OSError ENOENT ''/w/nothing''), ([Getcwd, Getcwd, Stat ''/w/nothing''], 0))
 \<and> OSError ENOENT ''/w/nothing'' \<noteq> NotADirectoryError ''nothing''"
  by code_simp

text \<open>
  C3. \<open>A\<close> and \<open>B\<close> are directories (under their canonical forms), \<open>os.stat\<close> reads
  both as given and finds two different entries, and only \<open>A\<close> holds the build file.
  Then \<open>validate_dirs\<close> returns the canonical form of \<open>A\<close> as source directory and
  that of \<open>B\<close> as build directory, whichever comes first.
\<close>

theorem C3_swap_symmetry:
  assumes "is_dir os (abspath_of os A)" and "is_dir os (abspath_of os B)"
    and "os_stat os A = Inr sa" and "os_stat os B = Inr sb" and "\<not> samestat sa sb"
    and "has_marker os m (abspath_of os A)" and "\<not> has_marker os m (abspath_of os B)"
  shows "result_of (validate_dirs os m A B s) = Inr (abspath_of os A, abspath_of os B)
       \<and> result_of (validate_dirs os m B A s) = Inr (abspath_of os A, abspath_of os B)"
  using assms
  by (cases s) (auto simp add: validate_dirs_run result_of_def trace_of_def Let_def is_dir_def samestat_def split: sum.splits)

theorem C3_witness:
  "is_dir example_os (abspath_of example_os ''src'')
 \<and> is_dir example_os (abspath_of example_os ''out'')
 \<and> os_stat example_os ''src'' = Inr (example_dir 2)
 \<and> os_stat example_os ''out'' = Inr (example_dir 3)
 \<and> \<not> samestat (example_dir 2) (example_dir 3)
 \<and> has_marker example_os (example_modules {}) (abspath_of example_os ''src'')
 \<and> \<not> has_marker example_os (example_modules {}) (abspath_of example_os ''out'')
 \<and> result_of (validate_dirs example_os (example_modules {}) ''src'' ''out'' ([], 0))
       = Inr (''/w/src'', ''/w/out'')
 \<and> result_of (validate_dirs example_os (example_modules {}) ''out'' ''src'' ([], 0))
       = Inr (''/w/src'', ''/w/out'')"
proof -
  have h1: "is_dir example_os (abspath_of example_os ''src'')" by code_simp
  have h2: "is_dir example_os (abspath_of example_os ''out'')" by code_simp
  have h3: "os_stat example_os ''src'' = Inr (example_dir 2)" by code_simp
  have h4: "os_stat example_os ''out'' = Inr (example_dir 3)" by code_simp
  have h5: "\<not> samestat (example_dir 2) (example_dir 3)" by code_simp
  have h6: "has_marker example_os (example_modules {}) (abspath_of example_os ''src'')"
    by code_simp
  have h7: "\<not> has_marker example_os (example_modules {}) (abspath_of example_os ''out'')"
    by code_simp
  from C3_swap_symmetry [OF h1 h2 h3 h4 h5 h6 h7, of "([], 0)"] h1 h2 h3 h4 h5 h6 h7
  show ?thesis by (simp add: example_abspath)
qed

text \<open>
  C4. For two different directories: both hold the build file, and \<open>validate_dirs\<close>
  fails with \<open>AmbiguousMarkerError\<close>; neither does, and it fails with
  \<open>MissingMarkerError\<close>; and it fails in no other way.
\<close>

theorem C4_marker_failures:
  assumes "is_dir os (abspath_of os A)" and "is_dir os (abspath_of os B)"
    and "os_stat os A = Inr sa" and "os_stat os B = Inr sb" and "\<not> samestat sa sb"
  shows "(has_marker os m (abspath_of os A) \<and> has_marker os m (abspath_of os B)
            \<longrightarrow> result_of (validate_dirs os m A B s) = Inl (AmbiguousMarkerError m))
       \<and> (\<not> has_marker os m (abspath_of os A) \<and> \<not> has_marker os m (abspath_of os B)
            \<longrightarrow> result_of (validate_dirs os m A B s) = Inl (MissingMarkerError m))
       \<and> (\<forall>e. result_of (validate_dirs os m A B s) = Inl e
            \<longrightarrow> e = AmbiguousMarkerError m \<or> e = MissingMarkerError m)"
  using assms
  by (cases s) (auto simp add: validate_dirs_run result_of_def trace_of_def Let_def is_dir_def split: sum.splits)

theorem C4_witness:
  "is_dir example_os (abspath_of example_os ''src'')
 \<and> is_dir example_os (abspath_of example_os ''src2'')
 \<and> os_stat example_os ''src'' = Inr (example_dir 2)
 \<and> os_stat example_os ''src2'' = Inr (example_dir 6)
 \<and> \<not> samestat (example_dir 2) (example_dir 6)
 \<and> has_marker example_os (example_modules {}) (abspath_of example_os ''src'')
 \<and> has_marker example_os (example_modules {}) (abspath_of example_os ''src2'')
 \<and> result_of (validate_dirs example_os (example_modules {}) ''src'' ''src2'' ([], 0))
     = Inl (AmbiguousMarkerError (example_modules {}))
 \<and> is_dir example_os (abspath_of example_os ''out'')
 \<and> is_dir example_os (abspath_of example_os ''empty'')
 \<and> os_stat example_os ''out'' = Inr (example_dir 3)
 \<and> os_stat example_os ''empty'' = Inr (example_dir 5)
 \<and> \<not> samestat (example_dir 3) (example_dir 5)
 \<and> \<not> has_marker example_os (example_modules {}) (abspath_of example_os ''out'')
 \<and> \<not> has_marker example_os (example_modules {}) (abspath_of example_os ''empty'')
 \<and> result_of (validate_dirs example_os (example_modules {}) ''out'' ''empty'' ([], 0))
     = Inl (MissingMarkerError (example_modules {}))"
proof -
  have a1: "is_dir example_os (abspath_of example_os ''src'')" by code_simp
  have a2: "is_dir example_os (abspath_of example_os ''src2'')" by code_simp
  have a3: "os_stat example_os ''src'' = Inr (example_dir 2)" by code_simp
  have a4: "os_stat example_os ''src2'' = Inr (example_dir 6)" by code_simp
  have a5: "\<not> samestat (example_dir 2) (example_dir 6)" by code_simp
  have a6: "has_marker example_os (example_modules {}) (abspath_of example_os ''src'')"
    by code_simp
  have a7: "has_marker example_os (example_modules {}) (abspath_of example_os ''src2'')"
    by code_simp
  have b1: "is_dir example_os (abspath_of example_os ''out'')" by code_simp
  have b2: "is_dir example_os (abspath_of example_os ''empty'')" by code_simp
  have b3: "os_stat example_os ''out'' = Inr (example_dir 3)" by code_simp
  have b4: "os_stat example_os ''empty'' = Inr (example_dir 5)" by code_simp
  have b5: "\<not> samestat (example_dir 3) (example_dir 5)" by code_simp
  have b6: "\<not> has_marker example_os (example_modules {}) (abspath_of example_os ''out'')"
    by code_simp
  have b7: "\<not> has_marker example_os (example_modules {}) (abspath_of example_os ''empty'')"
    by code_simp
  from C4_marker_failures [OF a1 a2 a3 a4 a5, of "example_modules {}" "([], 0)"] a6 a7
  have r1: "result_of (validate_dirs example_os (example_modules {}) ''src'' ''src2'' ([], 0))
     = Inl (AmbiguousMarkerError (example_modules {}))"
    by blast
  from C4_marker_failures [OF b1 b2 b3 b4 b5, of "example_modules {}" "([], 0)"] b6 b7
  have r2: "result_of (validate_dirs example_os (example_modules {}) ''out'' ''empty'' ([], 0))
     = Inl (MissingMarkerError (example_modules {}))"
    by blast
  from a1 a2 a3 a4 a5 a6 a7 r1 b1 b2 b3 b4 b5 b6 b7 r2 show ?thesis by blast
qed

text \<open>
  C5. When both arguments are directories and \<open>os.stat\<close> finds the same entry under
  both, \<open>validate_dirs\<close> fails with \<open>SameDirectoryError\<close>. The trace is the two
  directory checks followed by the two \<open>Stat\<close> calls of \<open>samefile\<close> and nothing else:
  no file is opened, and the run is the same whatever \<open>open\<close> would answer, that is
  wherever the build file is.
\<close>

theorem C5_same_directory:
  assumes "is_dir os (abspath_of os A)" and "is_dir os (abspath_of os B)"
    and "os_stat os A = Inr sa" and "os_stat os B = Inr sb" and "samestat sa sb"
  shows "validate_dirs os m A B (tr, w) =
           (Inl SameDirectoryError,
            (tr @ cwd_reads A @ cwd_reads B @
               [Stat (abspath_of os A), Stat (abspath_of os B), Stat A, Stat B], w))
       \<and> validate_dirs (os\<lparr>os_open := opn\<rparr>) m A B (tr, w) = validate_dirs os m A B (tr, w)"
proof -
  let ?os = "os\<lparr>os_open := opn\<rparr>"
  have p: "abspath_of ?os A = abspath_of os A" "abspath_of ?os B = abspath_of os B"
    by (simp_all add: abspath_of_def)
  have h: "is_dir ?os (abspath_of ?os A)" "is_dir ?os (abspath_of ?os B)"
    "os_stat ?os A = Inr sa" "os_stat ?os B = Inr sb"
    using assms by (simp_all add: is_dir_def p)
  from validate_dirs_same [OF assms, of m tr w]
       validate_dirs_same [OF h assms(5), of m tr w]
  show ?thesis by (simp add: p)
qed

text \<open>
  C5 at the example: \<open>link\<close> is a symbolic link to \<open>out\<close>; and \<open>out\<close> with itself.
\<close>

theorem C5_witness:
  "is_dir example_os (abspath_of example_os ''out'')
 \<and> is_dir example_os (abspath_of example_os ''link'')
 \<and> os_stat example_os ''out'' = Inr (example_dir 3)
 \<and> os_stat example_os ''link'' = Inr (example_dir 3)
 \<and> samestat (example_dir 3) (example_dir 3)
 \<and> validate_dirs example_os (example_modules {}) ''out'' ''link'' ([], 0)
     = (Inl SameDirectoryError,
        ([Getcwd, Getcwd, Stat ''/w/out'', Stat ''/w/link'', Stat ''out'', Stat ''link''], 0))
 \<and> validate_dirs example_os (example_modules {}) ''out'' ''out'' ([], 0)
     = (Inl SameDirectoryError,
        ([Getcwd, Getcwd, Stat ''/w/out'', Stat ''/w/out'', Stat ''out'', Stat ''out''], 0))"
proof -
  have h1: "is_dir example_os (abspath_of example_os ''out'')" by code_simp
  have h2: "is_dir example_os (abspath_of example_os ''link'')" by code_simp
  have h3: "os_stat example_os ''out'' = Inr (example_dir 3)" by code_simp
  have h4: "os_stat example_os ''link'' = Inr (example_dir 3)" by code_simp
  have h5: "samestat (example_dir 3) (example_dir 3)" by code_simp
  have c: "cwd_reads ''out'' = [Getcwd]" "cwd_reads ''link'' = [Getcwd]" by code_simp+
  from C5_same_directory [OF h1 h2 h3 h4 h5, of "example_modules {}" "[]" 0]
       C5_same_directory [OF h1 h1 h3 h3 h5, of "example_modules {}" "[]" 0]
       h1 h2 h3 h4 h5
  show ?thesis by (simp add: c example_abspath)
qed

text \<open>
  C10. A pair that \<open>validate_dirs\<close> returns is made of the canonical forms of its two
  arguments, in one order or the other; the two paths differ; and they are absolute
  when the current directory is, as \<open>os.getcwd\<close> guarantees.
\<close>

theorem C10_result_paths:
  assumes "result_of (validate_dirs os m dir1 dir2 s) = Inr (sdir, bdir)"
  shows "((sdir, bdir) = (abspath_of os dir1, abspath_of os dir2)
          \<or> (sdir, bdir) = (abspath_of os dir2, abspath_of os dir1))
       \<and> sdir \<noteq> bdir
       \<and> (isabs (os_getcwd os) \<longrightarrow> isabs sdir \<and> isabs bdir)"
  using assms
  by (cases s) (auto simp add: validate_dirs_run result_of_def trace_of_def Let_def isabs_abspath_of split: sum.splits if_splits)

theorem C10_witness:
  "result_of (validate_dirs example_os (example_modules {}) ''out'' ''src'' ([], 0))
     = Inr (''/w/src'', ''/w/out'')
 \<and> (''/w/src'', ''/w/out'') = (abspath_of example_os ''src'', abspath_of example_os ''out'')
 \<and> ''/w/src'' \<noteq> ''/w/out''
 \<and> isabs (os_getcwd example_os) \<and> isabs ''/w/src'' \<and> isabs ''/w/out''"
proof -
  have h: "result_of (validate_dirs example_os (example_modules {}) ''out'' ''src'' ([], 0))
     = Inr (''/w/src'', ''/w/out'')"
    by code_simp
  have a: "isabs (os_getcwd example_os)" by code_simp
  from C10_result_paths [OF h] h a show ?thesis by (simp add: example_abspath)
qed

section \<open>Configuration\<close>

text \<open>
  C6. A command line without options (no argument starts with a dash) parses to the
  defaults of the \<open>add_option\<close> calls, and every argument is left as positional.
\<close>

theorem C6_defaults:
  assumes "\<forall>arg \<in> set argv. \<not> startswith arg ''-''"
  shows "parse_args argv s =
    (Inr (\<lparr>prefix = ''/usr/local'', libdir = ''lib'', bindir = ''bin'',
           includedir = ''include'', datadir = ''share'', mandir = ''share/man'',
           generator = ''ninja'', buildtype = ''debug'', strip = False, coverage = False\<rparr>,
          argv), s)"
  using process_args_no_options [OF assms, of "[]" get_default_values]
  by (simp add: parse_args_def return_def get_default_values_def)

theorem C6_witness:
  "\<not> startswith ''meson.py'' ''-'' \<and> \<not> startswith ''src'' ''-'' \<and> \<not> startswith ''out'' ''-''
 \<and> parse_args [''meson.py'', ''src'', ''out''] ([], 0) =
    (Inr (\<lparr>prefix = ''/usr/local'', libdir = ''lib'', bindir = ''bin'',
           includedir = ''include'', datadir = ''share'', mandir = ''share/man'',
           generator = ''ninja'', buildtype = ''debug'', strip = False, coverage = False\<rparr>,
          [''meson.py'', ''src'', ''out'']), ([], 0))"
proof -
  have h: "\<forall>arg \<in> set [''meson.py'', ''src'', ''out'']. \<not> startswith arg ''-''"
    by (simp add: startswith_def)
  from C6_defaults [OF h, of "([], 0)"] h show ?thesis by simp
qed

text \<open>
  The prefix is read as \<open>options.prefix[0]\<close>: once the directories are validated, an
  empty prefix raises \<open>IndexError\<close>.
\<close>

lemma empty_prefix_IndexError:
  assumes "prefix opts = []"
  shows "BuilderApp_init os m dir1 dir2 script_file opts s =
           (case validate_dirs os m dir1 dir2 s of
              (Inl e, s') \<Rightarrow> (Inl e, s')
            | (Inr dirs, s') \<Rightarrow> (Inl IndexError, s'))"
  using assms
  by (simp add: BuilderApp_init_def bind_def raise_def split: prod.splits sum.splits)

text \<open>
  C1, as the script behaves. \<open>__init__\<close> validates the directories before it looks at
  the prefix. With a non-empty prefix that does not start with \<open>/\<close> it never succeeds:
  an error of \<open>validate_dirs\<close> is raised as it is, and when \<open>validate_dirs\<close> returns,
  \<open>InvalidPrefixError\<close> is raised after all its file system accesses.
\<close>

theorem C1_amended:
  assumes "prefix opts = c # cs" and "c \<noteq> CHR ''/''"
  shows "BuilderApp_init os m dir1 dir2 script_file opts s =
           (case validate_dirs os m dir1 dir2 s of
              (Inl e, s') \<Rightarrow> (Inl e, s')
            | (Inr dirs, s') \<Rightarrow> (Inl InvalidPrefixError, s'))"
  using assms
  by (simp add: BuilderApp_init_def bind_def return_def raise_def InvalidPrefixError_def
      split: prod.splits sum.splits)

theorem C1_witness:
  "prefix (get_default_values\<lparr>prefix := ''relative/path''\<rparr>) = CHR ''r'' # ''elative/path''
 \<and> CHR ''r'' \<noteq> CHR ''/''
 \<and> BuilderApp_init example_os (example_modules {}) ''src'' ''out'' ''/w/meson.py''
       (get_default_values\<lparr>prefix := ''relative/path''\<rparr>) ([], 0)
     = (Inl InvalidPrefixError,
        ([Getcwd, Getcwd, Stat ''/w/src'', Stat ''/w/out'', Stat ''src'', Stat ''out'',
          Open ''/w/src/meson.build'', Close, Open ''/w/out/meson.build''], 0))
 \<and> BuilderApp_init example_os (example_modules {}) ''out'' ''link'' ''/w/meson.py''
       (get_default_values\<lparr>prefix := ''relative/path''\<rparr>) ([], 0)
     = (Inl SameDirectoryError,
        ([Getcwd, Getcwd, Stat ''/w/out'', Stat ''/w/link'', Stat ''out'', Stat ''link''], 0))"
proof -
  have h1: "prefix (get_default_values\<lparr>prefix := ''relative/path''\<rparr>)
              = CHR ''r'' # ''elative/path''"
    by simp
  have h2: "CHR ''r'' \<noteq> CHR ''/''" by simp
  have v1: "validate_dirs example_os (example_modules {}) ''src'' ''out'' ([], 0)
     = (Inr (''/w/src'', ''/w/out''),
        ([Getcwd, Getcwd, Stat ''/w/src'', Stat ''/w/out'', Stat ''src'', Stat ''out'',
          Open ''/w/src/meson.build'', Close, Open ''/w/out/meson.build''], 0))"
    by code_simp
  have v2: "validate_dirs example_os (example_modules {}) ''out'' ''link'' ([], 0)
     = (Inl SameDirectoryError,
        ([Getcwd, Getcwd, Stat ''/w/out'', Stat ''/w/link'', Stat ''out'', Stat ''link''], 0))"
    by code_simp
  from C1_amended [OF h1 h2, of example_os "example_modules {}" "''src''" "''out''"
                     "''/w/meson.py''" "([], 0)"]
       C1_amended [OF h1 h2, of example_os "example_modules {}" "''out''" "''link''"
                     "''/w/meson.py''" "([], 0)"]
  show ?thesis by (simp add: v1 v2)
qed

text \<open>
  C1 as stated fails: with the prefix \<open>relative/path\<close> and two directories without a
  build file the error is \<open>MissingMarkerError\<close>; and with \<open>src\<close> and \<open>out\<close> the
  error is \<open>InvalidPrefixError\<close>, but only after the directories were read.
\<close>

theorem C1_counterexample:
  "\<not> startswith (prefix (get_default_values\<lparr>prefix := ''relative/path''\<rparr>)) ''/''
 \<and> BuilderApp_init example_os (example_modules {}) ''out'' ''empty'' ''/w/meson.py''
       (get_default_values\<lparr>prefix := ''relative/path''\<rparr>) ([], 0)
     = (Inl (MissingMarkerError (example_modules {})),
        ([Getcwd, Getcwd, Stat ''/w/out'', Stat ''/w/empty'', Stat ''out'', Stat ''empty'',
          Open ''/w/out/meson.build'', Open ''/w/empty/meson.build''], 0))
 \<and> MissingMarkerError (example_modules {}) \<noteq> InvalidPrefixError
 \<and> BuilderApp_init example_os (example_modules {}) ''src'' ''out'' ''/w/meson.py''
       (get_default_values\<lparr>prefix := ''relative/path''\<rparr>) ([], 0)
     = (Inl InvalidPrefixError,
        ([Getcwd, Getcwd, Stat ''/w/src'', Stat ''/w/out'', Stat ''src'', Stat ''out'',
          Open ''/w/src/meson.build'', Close, Open ''/w/out/meson.build''], 0))"
  by code_simp

section \<open>Generator selection and stage order\<close>

text \<open>
  C7. Once the environment, the build graph and the interpreter run have succeeded,
  \<open>generate\<close> continues with \<open>ShellGenerator\<close> for the name \<open>shell\<close>, with
  \<open>NinjaGenerator\<close> for \<open>ninja\<close>, and for any other name raises
  \<open>UnknownGeneratorError\<close> with that name. The choice adds nothing to the trace and
  leaves the state as the interpreter run left it.
\<close>

theorem C7_generator_selection:
  assumes "Environment m (source_dir self) (build_dir self) (builder_script_file self) opts w
             = (Inr env, w1)"
    and "Build m env w1 = (Inr b, w2)"
    and "Interpreter m b w2 = (Inr intr, w3)"
    and "Interpreter_run_method m intr w3 = (Inr (), w4)"
    and "tr4 = tr @ [Called Environment_new True, Called Build_new True,
                     Called Interpreter_new True, Called Interpreter_run True]"
  shows "(generator opts = ''shell'' \<longrightarrow>
            generate m opts self (tr, w) =
              bind (call ShellGenerator_new (ShellGenerator m b intr))
                (\<lambda>g. call Generator_generate (Generator_generate_method m g)) (tr4, w4))
       \<and> (generator opts = ''ninja'' \<longrightarrow>
            generate m opts self (tr, w) =
              bind (call NinjaGenerator_new (NinjaGenerator m b intr))
                (\<lambda>g. call Generator_generate (Generator_generate_method m g)) (tr4, w4))
       \<and> (generator opts \<noteq> ''shell'' \<and> generator opts \<noteq> ''ninja'' \<longrightarrow>
            generate m opts self (tr, w) = (Inl (UnknownGeneratorError (generator opts)), (tr4, w4)))"
  using assms
  by (simp add: generate_def bind_def raise_def call_run UnknownGeneratorError_def)

theorem C7_witness:
  "generate (example_modules {}) (get_default_values\<lparr>generator := ''shell''\<rparr>) example_app ([], 0)
     = (Inr (), ([Called Environment_new True, Called Build_new True,
                  Called Interpreter_new True, Called Interpreter_run True,
                  Called ShellGenerator_new True, Called Generator_generate True], 6))
 \<and> generate (example_modules {}) (get_default_values\<lparr>generator := ''ninja''\<rparr>) example_app ([], 0)
     = (Inr (), ([Called Environment_new True, Called Build_new True,
                  Called Interpreter_new True, Called Interpreter_run True,
                  Called NinjaGenerator_new True, Called Generator_generate True], 6))
 \<and> generate (example_modules {}) (get_default_values\<lparr>generator := ''bogus''\<rparr>) example_app ([], 0)
     = (Inl (UnknownGeneratorError ''bogus''),
        ([Called Environment_new True, Called Build_new True,
          Called Interpreter_new True, Called Interpreter_run True], 4))"
proof -
  let ?tr4 = "[Called Environment_new True, Called Build_new True,
               Called Interpreter_new True, Called Interpreter_run True]"
  have t: "?tr4 = [] @ ?tr4" by simp
  have s: "bind (call ShellGenerator_new (ShellGenerator (example_modules {}) 2 3))
             (\<lambda>g. call Generator_generate (Generator_generate_method (example_modules {}) g))
             (?tr4, 4)
           = (Inr (), ([Called Environment_new True, Called Build_new True,
                  Called Interpreter_new True, Called Interpreter_run True,
                  Called ShellGenerator_new True, Called Generator_generate True], 6))"
    by code_simp
  have n: "bind (call NinjaGenerator_new (NinjaGenerator (example_modules {}) 2 3))
             (\<lambda>g. call Generator_generate (Generator_generate_method (example_modules {}) g))
             (?tr4, 4)
           = (Inr (), ([Called Environment_new True, Called Build_new True,
                  Called Interpreter_new True, Called Interpreter_run True,
                  Called NinjaGenerator_new True, Called Generator_generate True], 6))"
    by code_simp
  from C7_generator_selection [OF example_stages t,
         where opts = "get_default_values\<lparr>generator := ''shell''\<rparr>"]
       C7_generator_selection [OF example_stages t,
         where opts = "get_default_values\<lparr>generator := ''ninja''\<rparr>"]
       C7_generator_selection [OF example_stages t,
         where opts = "get_default_values\<lparr>generator := ''bogus''\<rparr>"]
  show ?thesis by (simp add: s n)
qed

text \<open>
  C9. In every run of the script the collaborator calls are an initial part of
  environment, build graph, interpreter, interpreter run, generator, generate, and a
  call that raised is the last one. When \<open>validate_dirs\<close> fails, the script fails with
  its error and calls no collaborator. When the interpreter fails, no generator is
  constructed or run: \<open>generate\<close> ends with the interpreter's exception before it looks at
  the generator name. And the stages do run: \<open>generate\<close> goes through the calls of its
  generator name and stops early only after a call that raised; once \<open>__init__\<close> has
  returned, the script's result and collaborator calls are those of \<open>generate\<close>; and
  when all six calls return, for \<open>shell\<close> and for \<open>ninja\<close>, \<open>generate\<close> makes all six in
  order and returns.
\<close>

theorem C9_stage_order:
  "(\<exists>name. gated (calls_of (trace_of (main os m script argv ([], w)))) (pipeline name))
 \<and> (\<forall>opts args e.
       process_args [] argv get_default_values = Inr (opts, args)
       \<and> (length args = 2 \<or> length args = 3)
       \<and> result_of (validate_dirs os m (args ! 1)
                      (if length args > 2 then args ! 2 else ''.'') ([], w)) = Inl e
       \<longrightarrow> result_of (main os m script argv ([], w)) = Inl e
           \<and> calls_of (trace_of (main os m script argv ([], w))) = [])
 \<and> ((Interpreter_new, False) \<in> set (calls_of (trace_of (main os m script argv ([], w))))
      \<or> (Interpreter_run, False) \<in> set (calls_of (trace_of (main os m script argv ([], w))))
     \<longrightarrow> (\<forall>ok. (ShellGenerator_new, ok) \<notin> set (calls_of (trace_of (main os m script argv ([], w))))
             \<and> (NinjaGenerator_new, ok) \<notin> set (calls_of (trace_of (main os m script argv ([], w))))
             \<and> (Generator_generate, ok) \<notin> set (calls_of (trace_of (main os m script argv ([], w))))))
 \<and> (\<forall>(self :: BuilderApp) opts tr w0 env w1 b w2 intr w3 e w4.
       Environment m (source_dir self) (build_dir self) (builder_script_file self) opts w0
         = (Inr env, w1)
       \<and> Build m env w1 = (Inr b, w2)
       \<and> Interpreter m b w2 = (Inr intr, w3)
       \<and> Interpreter_run_method m intr w3 = (Inl e, w4)
       \<longrightarrow> generate m opts self (tr, w0) =
             (Inl e, (tr @ [Called Environment_new True, Called Build_new True,
                            Called Interpreter_new True, Called Interpreter_run False], w4)))
 \<and> (\<forall>(self :: BuilderApp) opts w0.
       run_through (calls_of (trace_of (generate m opts self ([], w0))))
         (pipeline (generator opts)))
 \<and> (\<forall>opts args builder.
       process_args [] argv get_default_values = Inr (opts, args)
       \<and> (length args = 2 \<or> length args = 3)
       \<and> result_of (BuilderApp_init os m (args ! 1)
                      (if length args > 2 then args ! 2 else ''.'')
                      (abspath_of os script) opts ([], w)) = Inr builder
       \<longrightarrow> result_of (main os m script argv ([], w))
             = result_of (generate m opts builder ([], w))
           \<and> calls_of (trace_of (main os m script argv ([], w)))
             = calls_of (trace_of (generate m opts builder ([], w))))
 \<and> (\<forall>(self :: BuilderApp) opts tr w0 env w1 b w2 intr w3 w4 g w5 w6.
       Environment m (source_dir self) (build_dir self) (builder_script_file self) opts w0
         = (Inr env, w1)
       \<and> Build m env w1 = (Inr b, w2)
       \<and> Interpreter m b w2 = (Inr intr, w3)
       \<and> Interpreter_run_method m intr w3 = (Inr (), w4)
       \<and> generator opts = ''shell''
       \<and> ShellGenerator m b intr w4 = (Inr g, w5)
       \<and> Generator_generate_method m g w5 = (Inr (), w6)
       \<longrightarrow> generate m opts self (tr, w0) =
             (Inr (), (tr @ [Called Environment_new True, Called Build_new True,
                             Called Interpreter_new True, Called Interpreter_run True,
                             Called ShellGenerator_new True, Called Generator_generate True],
                       w6)))
 \<and> (\<forall>(self :: BuilderApp) opts tr w0 env w1 b w2 intr w3 w4 g w5 w6.
       Environment m (source_dir self) (build_dir self) (builder_script_file self) opts w0
         = (Inr env, w1)
       \<and> Build m env w1 = (Inr b, w2)
       \<and> Interpreter m b w2 = (Inr intr, w3)
       \<and> Interpreter_run_method m intr w3 = (Inr (), w4)
       \<and> generator opts = ''ninja''
       \<and> NinjaGenerator m b intr w4 = (Inr g, w5)
       \<and> Generator_generate_method m g w5 = (Inr (), w6)
       \<longrightarrow> generate m opts self (tr, w0) =
             (Inr (), (tr @ [Called Environment_new True, Called Build_new True,
                             Called Interpreter_new True, Called Interpreter_run True,
                             Called NinjaGenerator_new True, Called Generator_generate True],
                       w6)))"
proof (intro conjI allI impI)
  show "\<exists>name. gated (calls_of (trace_of (main os m script argv ([], w)))) (pipeline name)"
    by (rule main_calls)
next
  fix opts args e
  assume a: "process_args [] argv get_default_values = Inr (opts, args)
       \<and> (length args = 2 \<or> length args = 3)
       \<and> result_of (validate_dirs os m (args ! 1)
                      (if length args > 2 then args ! 2 else ''.'') ([], w)) = Inl e"
  then have eq: "main os m script argv ([], w) =
      build_in os m script opts (args ! 1) (if length args > 2 then args ! 2 else ''.'') ([], w)"
    using main_build_in by blast
  from a have v: "result_of (validate_dirs os m (args ! 1)
                      (if length args > 2 then args ! 2 else ''.'') ([], w)) = Inl e"
    by simp
  have "result_of (build_in os m script opts (args ! 1)
                     (if length args > 2 then args ! 2 else ''.'') ([], w)) = Inl e
      \<and> calls_of (trace_of (build_in os m script opts (args ! 1)
                     (if length args > 2 then args ! 2 else ''.'') ([], w))) = calls_of []"
    by (rule build_in_fails [OF v])
  with eq show "result_of (main os m script argv ([], w)) = Inl e"
    and "calls_of (trace_of (main os m script argv ([], w))) = []"
    by simp_all
next
  fix ok
  assume f: "(Interpreter_new, False) \<in> set (calls_of (trace_of (main os m script argv ([], w))))
      \<or> (Interpreter_run, False) \<in> set (calls_of (trace_of (main os m script argv ([], w))))"
  obtain name where "gated (calls_of (trace_of (main os m script argv ([], w)))) (pipeline name)"
    using main_calls [of os m script argv w] by (elim exE)
  from gated_no_generator [OF this f]
  show "(ShellGenerator_new, ok) \<notin> set (calls_of (trace_of (main os m script argv ([], w))))"
    and "(NinjaGenerator_new, ok) \<notin> set (calls_of (trace_of (main os m script argv ([], w))))"
    and "(Generator_generate, ok) \<notin> set (calls_of (trace_of (main os m script argv ([], w))))"
    by simp_all
next
  fix self :: BuilderApp and opts tr w0 env w1 b w2 intr w3 e w4
  assume g: "Environment m (source_dir self) (build_dir self) (builder_script_file self) opts w0
         = (Inr env, w1)
       \<and> Build m env w1 = (Inr b, w2)
       \<and> Interpreter m b w2 = (Inr intr, w3)
       \<and> Interpreter_run_method m intr w3 = (Inl e, w4)"
  from g have g1: "Environment m (source_dir self) (build_dir self) (builder_script_file self)
                     opts w0 = (Inr env, w1)"
    and g2: "Build m env w1 = (Inr b, w2)"
    and g3: "Interpreter m b w2 = (Inr intr, w3)"
    and g4: "Interpreter_run_method m intr w3 = (Inl e, w4)"
    by simp_all
  show "generate m opts self (tr, w0) =
             (Inl e, (tr @ [Called Environment_new True, Called Build_new True,
                            Called Interpreter_new True, Called Interpreter_run False], w4))"
    by (rule generate_interpreter_fails [OF g1 g2 g3 g4])
next
  fix self :: BuilderApp and opts w0
  show "run_through (calls_of (trace_of (generate m opts self ([], w0))))
          (pipeline (generator opts))"
    by (rule generate_run_through)
next
  fix opts args builder
  assume a: "process_args [] argv get_default_values = Inr (opts, args)
       \<and> (length args = 2 \<or> length args = 3)
       \<and> result_of (BuilderApp_init os m (args ! 1)
                      (if length args > 2 then args ! 2 else ''.'')
                      (abspath_of os script) opts ([], w)) = Inr builder"
  then have eq: "main os m script argv ([], w) =
      build_in os m script opts (args ! 1) (if length args > 2 then args ! 2 else ''.'') ([], w)"
    using main_build_in by blast
  from a have i: "result_of (BuilderApp_init os m (args ! 1)
                      (if length args > 2 then args ! 2 else ''.'')
                      (abspath_of os script) opts ([], w)) = Inr builder"
    by simp
  from build_in_succeeds [OF i, of w]
  show "result_of (main os m script argv ([], w)) = result_of (generate m opts builder ([], w))"
    and "calls_of (trace_of (main os m script argv ([], w)))
           = calls_of (trace_of (generate m opts builder ([], w)))"
    by (simp_all add: eq)
next
  fix self :: BuilderApp and opts tr w0 env w1 b w2 intr w3 w4 g w5 w6
  assume s: "Environment m (source_dir self) (build_dir self) (builder_script_file self) opts w0
         = (Inr env, w1)
       \<and> Build m env w1 = (Inr b, w2)
       \<and> Interpreter m b w2 = (Inr intr, w3)
       \<and> Interpreter_run_method m intr w3 = (Inr (), w4)
       \<and> generator opts = ''shell''
       \<and> ShellGenerator m b intr w4 = (Inr g, w5)
       \<and> Generator_generate_method m g w5 = (Inr (), w6)"
  from s have s1: "Environment m (source_dir self) (build_dir self) (builder_script_file self)
                     opts w0 = (Inr env, w1)"
    and s2: "Build m env w1 = (Inr b, w2)"
    and s3: "Interpreter m b w2 = (Inr intr, w3)"
    and s4: "Interpreter_run_method m intr w3 = (Inr (), w4)"
    and s5: "generator opts = ''shell''"
    and s6: "ShellGenerator m b intr w4 = (Inr g, w5)"
    and s7: "Generator_generate_method m g w5 = (Inr (), w6)"
    by simp_all
  show "generate m opts self (tr, w0) =
             (Inr (), (tr @ [Called Environment_new True, Called Build_new True,
                             Called Interpreter_new True, Called Interpreter_run True,
                             Called ShellGenerator_new True, Called Generator_generate True],
                       w6))"
    by (rule generate_succeeds_shell [OF s1 s2 s3 s4 s5 s6 s7])
next
  fix self :: BuilderApp and opts tr w0 env w1 b w2 intr w3 w4 g w5 w6
  assume n: "Environment m (source_dir self) (build_dir self) (builder_script_file self) opts w0
         = (Inr env, w1)
       \<and> Build m env w1 = (Inr b, w2)
       \<and> Interpreter m b w2 = (Inr intr, w3)
       \<and> Interpreter_run_method m intr w3 = (Inr (), w4)
       \<and> generator opts = ''ninja''
       \<and> NinjaGenerator m b intr w4 = (Inr g, w5)
       \<and> Generator_generate_method m g w5 = (Inr (), w6)"
  from n have n1: "Environment m (source_dir self) (build_dir self) (builder_script_file self)
                     opts w0 = (Inr env, w1)"
    and n2: "Build m env w1 = (Inr b, w2)"
    and n3: "Interpreter m b w2 = (Inr intr, w3)"
    and n4: "Interpreter_run_method m intr w3 = (Inr (), w4)"
    and n5: "generator opts = ''ninja''"
    and n6: "NinjaGenerator m b intr w4 = (Inr g, w5)"
    and n7: "Generator_generate_method m g w5 = (Inr (), w6)"
    by simp_all
  show "generate m opts self (tr, w0) =
             (Inr (), (tr @ [Called Environment_new True, Called Build_new True,
                             Called Interpreter_new True, Called Interpreter_run True,
                             Called NinjaGenerator_new True, Called Generator_generate True],
                       w6))"
    by (rule generate_succeeds_ninja [OF n1 n2 n3 n4 n5 n6 n7])
qed

theorem C9_witness:
  "process_args [] [''meson.py'', ''out'', ''empty''] get_default_values
     = Inr (get_default_values, [''meson.py'', ''out'', ''empty''])
 \<and> result_of (validate_dirs example_os (example_modules {}) ''out'' ''empty'' ([], 0))
     = Inl (MissingMarkerError (example_modules {}))
 \<and> result_of (main example_os (example_modules {}) ''meson.py''
                 [''meson.py'', ''out'', ''empty''] ([], 0))
     = Inl (MissingMarkerError (example_modules {}))
 \<and> calls_of (trace_of (main example_os (example_modules {}) ''meson.py''
                 [''meson.py'', ''out'', ''empty''] ([], 0))) = []
 \<and> calls_of (trace_of (main example_os (example_modules {Interpreter_run}) ''meson.py''
                 [''meson.py'', ''src'', ''out''] ([], 0)))
     = [(Environment_new, True), (Build_new, True), (Interpreter_new, True),
        (Interpreter_run, False)]
 \<and> (NinjaGenerator_new, True) \<notin> set (calls_of (trace_of
        (main example_os (example_modules {Interpreter_run}) ''meson.py''
           [''meson.py'', ''src'', ''out''] ([], 0))))
 \<and> process_args [] [''meson.py'', ''src'', ''out''] get_default_values
     = Inr (get_default_values, [''meson.py'', ''src'', ''out''])
 \<and> result_of (BuilderApp_init example_os (example_modules {}) ''src'' ''out''
                 (abspath_of example_os ''meson.py'') get_default_values ([], 0))
     = Inr example_app
 \<and> generate (example_modules {}) get_default_values example_app ([], 0)
     = (Inr (), ([Called Environment_new True, Called Build_new True,
                  Called Interpreter_new True, Called Interpreter_run True,
                  Called NinjaGenerator_new True, Called Generator_generate True], 6))
 \<and> result_of (main example_os (example_modules {}) ''meson.py''
                 [''meson.py'', ''src'', ''out''] ([], 0)) = Inr ()
 \<and> calls_of (trace_of (main example_os (example_modules {}) ''meson.py''
                 [''meson.py'', ''src'', ''out''] ([], 0)))
     = [(Environment_new, True), (Build_new, True), (Interpreter_new, True),
        (Interpreter_run, True), (NinjaGenerator_new, True), (Generator_generate, True)]
 \<and> run_through (calls_of (trace_of (main example_os (example_modules {}) ''meson.py''
                 [''meson.py'', ''src'', ''out''] ([], 0)))) (pipeline ''ninja'')"
proof -
  have p: "process_args [] [''meson.py'', ''out'', ''empty''] get_default_values
     = Inr (get_default_values, [''meson.py'', ''out'', ''empty''])"
    by code_simp
  have v: "result_of (validate_dirs example_os (example_modules {}) ''out'' ''empty'' ([], 0))
     = Inl (MissingMarkerError (example_modules {}))"
    by code_simp
  have c: "calls_of (trace_of (main example_os (example_modules {Interpreter_run}) ''meson.py''
                 [''meson.py'', ''src'', ''out''] ([], 0)))
     = [(Environment_new, True), (Build_new, True), (Interpreter_new, True),
        (Interpreter_run, False)]"
    by code_simp
  from C9_stage_order [of example_os "example_modules {}" "''meson.py''"
                          "[''meson.py'', ''out'', ''empty'']" 0] p v
  have r1: "result_of (main example_os (example_modules {}) ''meson.py''
                 [''meson.py'', ''out'', ''empty''] ([], 0))
       = Inl (MissingMarkerError (example_modules {}))
     \<and> calls_of (trace_of (main example_os (example_modules {}) ''meson.py''
                 [''meson.py'', ''out'', ''empty''] ([], 0))) = []"
    by simp
  from C9_stage_order [of example_os "example_modules {Interpreter_run}" "''meson.py''"
                          "[''meson.py'', ''src'', ''out'']" 0] c
  have r2: "(NinjaGenerator_new, True) \<notin> set (calls_of (trace_of
        (main example_os (example_modules {Interpreter_run}) ''meson.py''
           [''meson.py'', ''src'', ''out''] ([], 0))))"
    by simp
  have p2: "process_args [] [''meson.py'', ''src'', ''out''] get_default_values
     = Inr (get_default_values, [''meson.py'', ''src'', ''out''])"
    by code_simp
  have i: "result_of (BuilderApp_init example_os (example_modules {}) ''src'' ''out''
                 (abspath_of example_os ''meson.py'') get_default_values ([], 0))
     = Inr example_app"
    by code_simp
  note t = C9_stage_order [of example_os "example_modules {}" "''meson.py''"
                   "[''meson.py'', ''src'', ''out'']" 0]
  have n: "NinjaGenerator (example_modules {}) 2 3 4 = (Inr 5, 5)"
    "Generator_generate_method (example_modules {}) 5 5 = (Inr (), 6)"
    "generator get_default_values = ''ninja''"
    by (simp_all add: example_modules_def example_call_def get_default_values_def)
  have g0: "generate (example_modules {}) get_default_values example_app ([], 0)
     = (Inr (), ([] @ [Called Environment_new True, Called Build_new True,
                  Called Interpreter_new True, Called Interpreter_run True,
                  Called NinjaGenerator_new True, Called Generator_generate True], 6))"
    apply (rule t [THEN conjunct2, THEN conjunct2, THEN conjunct2, THEN conjunct2,
                   THEN conjunct2, THEN conjunct2, THEN conjunct2, rule_format])
    apply (intro conjI)
    apply (rule example_stages n)+
    done
  then have g: "generate (example_modules {}) get_default_values example_app ([], 0)
     = (Inr (), ([Called Environment_new True, Called Build_new True,
                  Called Interpreter_new True, Called Interpreter_run True,
                  Called NinjaGenerator_new True, Called Generator_generate True], 6))"
    by simp
  have m: "result_of (main example_os (example_modules {}) ''meson.py''
                 [''meson.py'', ''src'', ''out''] ([], 0))
             = result_of (generate (example_modules {}) get_default_values example_app ([], 0))
         \<and> calls_of (trace_of (main example_os (example_modules {}) ''meson.py''
                 [''meson.py'', ''src'', ''out''] ([], 0)))
             = calls_of (trace_of (generate (example_modules {}) get_default_values
                                     example_app ([], 0)))"
    using t [THEN conjunct2, THEN conjunct2, THEN conjunct2, THEN conjunct2, THEN conjunct2,
             THEN conjunct1, THEN spec [where x = get_default_values],
             THEN spec [where x = "[''meson.py'', ''src'', ''out'']"],
             THEN spec [where x = example_app]]
          p2 i
    by simp
  from m g have r3: "result_of (main example_os (example_modules {}) ''meson.py''
                 [''meson.py'', ''src'', ''out''] ([], 0)) = Inr ()"
    and r4: "calls_of (trace_of (main example_os (example_modules {}) ''meson.py''
                 [''meson.py'', ''src'', ''out''] ([], 0)))
     = [(Environment_new, True), (Build_new, True), (Interpreter_new, True),
        (Interpreter_run, True), (NinjaGenerator_new, True), (Generator_generate, True)]"
    by (simp_all add: result_of_def trace_of_def)
  have r5: "run_through (calls_of (trace_of (main example_os (example_modules {}) ''meson.py''
                 [''meson.py'', ''src'', ''out''] ([], 0)))) (pipeline ''ninja'')"
    by (simp add: r4 pipeline_def)
  from p v c r1 r2 p2 i g r3 r4 r5 show ?thesis by blast
qed

section \<open>The command line\<close>

text \<open>
  C8, as the script behaves. The arguments left after parsing are the program name and
  the directories. With no directory, or with more than two, the script prints its two
  usage lines and exits with status 1. With one directory the second is \<open>.\<close>; with two
  both are used.
\<close>

theorem C8_amended:
  assumes "process_args [] (prog # rest) get_default_values = Inr (opts, a0 # dirs)"
  shows "(dirs = [] \<or> length dirs > 2 \<longrightarrow>
            main os m script (prog # rest) (tr, w) =
              (Inl (SystemExit 1),
               (tr @ [Print (prog @ '' <source directory> <build directory>''),
                      Print ''If you omit either directory, the current directory is substituted.''],
                w))
            \<and> exit_status (result_of (main os m script (prog # rest) (tr, w))) = 1)
       \<and> (\<forall>d1. dirs = [d1] \<longrightarrow>
            main os m script (prog # rest) (tr, w) = build_in os m script opts d1 ''.'' (tr, w))
       \<and> (\<forall>d1 d2. dirs = [d1, d2] \<longrightarrow>
            main os m script (prog # rest) (tr, w) = build_in os m script opts d1 d2 (tr, w))"
proof (intro conjI impI allI)
  assume "dirs = [] \<or> length dirs > 2"
  then have "length (a0 # dirs) = 1 \<or> length (a0 # dirs) > 3" by auto
  from main_usage [OF assms this]
  show "main os m script (prog # rest) (tr, w) =
              (Inl (SystemExit 1),
               (tr @ [Print (prog @ '' <source directory> <build directory>''),
                      Print ''If you omit either directory, the current directory is substituted.''],
                w))" .
  then show "exit_status (result_of (main os m script (prog # rest) (tr, w))) = 1"
    by (simp add: result_of_def)
next
  fix d1 assume "dirs = [d1]"
  with main_build_in [OF assms, where s = "(tr, w)"]
  show "main os m script (prog # rest) (tr, w) = build_in os m script opts d1 ''.'' (tr, w)"
    by simp
next
  fix d1 d2 assume "dirs = [d1, d2]"
  with main_build_in [OF assms, where s = "(tr, w)"]
  show "main os m script (prog # rest) (tr, w) = build_in os m script opts d1 d2 (tr, w)"
    by simp
qed

theorem C8_witness:
  "process_args [] [''meson.py'', ''--strip'', ''src''] get_default_values
     = Inr (get_default_values\<lparr>strip := True\<rparr>, [''meson.py'', ''src''])
 \<and> main example_os (example_modules {}) ''meson.py'' [''meson.py'', ''--strip'', ''src''] ([], 0)
     = build_in example_os (example_modules {}) ''meson.py''
         (get_default_values\<lparr>strip := True\<rparr>) ''src'' ''.'' ([], 0)
 \<and> process_args [] [''meson.py'', ''a'', ''b'', ''c''] get_default_values
     = Inr (get_default_values, [''meson.py'', ''a'', ''b'', ''c''])
 \<and> main example_os (example_modules {}) ''meson.py'' [''meson.py'', ''a'', ''b'', ''c''] ([], 0)
     = (Inl (SystemExit 1),
        ([Print ''meson.py <source directory> <build directory>'',
          Print ''If you omit either directory, the current directory is substituted.''], 0))"
proof -
  have p1: "process_args [] [''meson.py'', ''--strip'', ''src''] get_default_values
     = Inr (get_default_values\<lparr>strip := True\<rparr>, [''meson.py'', ''src''])"
    by code_simp
  have p2: "process_args [] [''meson.py'', ''a'', ''b'', ''c''] get_default_values
     = Inr (get_default_values, [''meson.py'', ''a'', ''b'', ''c''])"
    by code_simp
  from C8_amended [OF p1, of example_os "example_modules {}" "''meson.py''" "[]" 0]
       C8_amended [OF p2, of example_os "example_modules {}" "''meson.py''" "[]" 0]
       p1 p2
  show ?thesis by simp
qed

text \<open>
  C8 as stated fails: without any directory the script does not fall back on the
  current directory; it prints the usage lines and exits with status 1.
\<close>

theorem C8_counterexample:
  "process_args [] [''meson.py''] get_default_values = Inr (get_default_values, [''meson.py''])
 \<and> main example_os (example_modules {}) ''meson.py'' [''meson.py''] ([], 0)
     = (Inl (SystemExit 1),
        ([Print ''meson.py <source directory> <build directory>'',
          Print ''If you omit either directory, the current directory is substituted.''], 0))"
  by code_simp

end
